theory Spec2Isabelle
  imports Complex_Main
begin

section \<open>Data model\<close>

text \<open>
  The backend is TypeScript on Mongoose. A Mongoose \<open>ObjectId\<close> is modelled as a natural
  number, a JavaScript \<open>Date\<close> as its \<open>getTime()\<close> value (milliseconds since the epoch,
  an integer), and a JavaScript \<open>number\<close> as an integer where the code only ever stores
  counts and as a real where it stores a quotient (\<open>mergeTime\<close>, thresholds). Real
  arithmetic is exact here; IEEE rounding of the doubles is not modelled.
\<close>

type_synonym object_id = nat
type_synonym date = int

text \<open>A thrown JavaScript value: \<open>new Error(msg)\<close>, a \<open>TypeError\<close> of the runtime, or the
  \<open>ApiError(statusCode, message)\<close> of \<open>error.middleware.ts\<close>.\<close>

datatype error = Error string | TypeError string | ApiError nat string

subsection \<open>\<open>repository.model.ts\<close>: \<open>IRepository\<close>\<close>

record commits_metrics =
  commits_total :: int
  commits_weekly :: "int list"

record pull_request_metrics =
  pr_open :: int
  pr_closed :: int
  pr_merged :: int

record issue_metrics =
  issues_open :: int
  issues_closed :: int

record metrics =
  commits :: commits_metrics
  pullRequests :: pull_request_metrics
  issues :: issue_metrics
  contributors :: int
  mergeTime :: real

record alert_flags =
  noActivity :: bool
  longOpenPRs :: bool
  commitDrops :: bool

record repository =
  owner :: string
  name :: string
  fullName :: string
  description :: "string option"
  url :: string
  apiUrl :: string
  stars :: int
  forks :: int
  openIssues :: int
  watchers :: int
  defaultBranch :: string
  lastFetched :: date
  users :: "object_id list"
  metrics :: metrics
  alerts :: alert_flags

subsection \<open>\<open>user.model.ts\<close>: \<open>IUser\<close>\<close>

datatype frequency = Daily | Weekly | Monthly

record email_reports =
  enabled :: bool
  frequency :: frequency
  lastSent :: "date option"

record user =
  githubId :: string
  username :: string
  email :: string
  accessToken :: string
  emailReports :: email_reports
  connectedRepos :: "object_id list"

subsection \<open>The \<open>IAlert\<close> model\<close>

datatype alert_type = NoActivity | LongOpenPRs | CommitDrops

datatype alert_status = Active | Resolved | Dismissed

record alert =
  alert_user :: object_id
  alert_repository :: object_id
  alert_type :: alert_type
  message :: string
  threshold :: real
  alert_value :: real
  alert_status :: alert_status
  resolvedAt :: "date option"

subsection \<open>The \<open>IReport\<close> model (\<open>reportSchema\<close>)\<close>

datatype report_status = Pending | Sent | Failed

record report_pull_requests =
  rpr_opened :: int
  rpr_merged :: int
  rpr_closed :: int

record report_issues =
  ri_opened :: int
  ri_closed :: int

record report_data =
  rd_commits :: int
  rd_pullRequests :: report_pull_requests
  rd_issues :: report_issues
  rd_contributors :: int
  rd_mergeTime :: real

record report =
  report_user :: object_id
  report_repository :: object_id
  reportType :: frequency
  startDate :: date
  endDate :: date
  data :: report_data
  sentAt :: "date option"
  report_status :: report_status
  createdAt :: date

subsection \<open>Persistence\<close>

text \<open>
  The four Mongoose collections. Repositories and users can be deleted, so they are maps
  from \<open>_id\<close>; alerts and reports are only ever created and updated, so they are lists
  and the \<open>_id\<close> of a record is its position. Reads and writes of the collections are
  taken to succeed in the controllers; the scheduled job below is the one place where
  their failure is part of the model.
\<close>

record db =
  Repository_coll :: "object_id \<rightharpoonup> repository"
  User_coll :: "object_id \<rightharpoonup> user"
  Alert_coll :: "alert list"
  Report_coll :: "report list"

section \<open>The GitHub service as seen by the refresh\<close>

text \<open>
  \<open>github.service.ts\<close> wraps one HTTP call per method and rethrows every failure as an
  \<open>Error\<close>. The refresh only sees what each method returns or throws, so the service is a
  record of responses indexed by the arguments the code passes (access token, owner,
  repository name and, for pull requests and issues, the state). Of each returned object
  only the fields the refresh reads are kept; \<open>created_at\<close> and \<open>merged_at\<close> are the
  timestamps already parsed (\<open>new Date(s).getTime()\<close>), \<open>merged_at = None\<close> is \<open>null\<close>.
\<close>

record github_repo =
  stargazers_count :: int
  forks_count :: int
  open_issues_count :: int
  watchers_count :: int

record week_activity =
  wk_week :: int
  wk_total :: int
  wk_days :: "int list"

record github_pull_request =
  pr_number :: int
  created_at :: date
  merged_at :: "date option"

record github_issue =
  issue_number :: int

record github_contributor =
  login :: string
  contributions :: int

record github_service =
  getRepo :: "string \<Rightarrow> string \<Rightarrow> string \<Rightarrow> error + github_repo"
  getWeeklyCommitActivity :: "string \<Rightarrow> string \<Rightarrow> string \<Rightarrow> error + week_activity list"
  getRepoPullRequests :: "string \<Rightarrow> string \<Rightarrow> string \<Rightarrow> string \<Rightarrow> error + github_pull_request list"
  getRepoIssues :: "string \<Rightarrow> string \<Rightarrow> string \<Rightarrow> string \<Rightarrow> error + github_issue list"
  getRepoContributors :: "string \<Rightarrow> string \<Rightarrow> string \<Rightarrow> error + github_contributor list"

section \<open>\<open>repo.controller.ts\<close>: \<open>updateRepoMetrics\<close>\<close>

text \<open>\<open>await e; rest\<close>: a rejected promise skips the rest of the \<open>try\<close> block.\<close>

definition await :: "error + 'a \<Rightarrow> ('a \<Rightarrow> error + 'b) \<Rightarrow> error + 'b" where
  "await r k = (case r of Inl e \<Rightarrow> Inl e | Inr v \<Rightarrow> k v)"

text \<open>\<open>pr => pr.merged_at\<close> as a filter predicate: \<open>null\<close> is falsy, a timestamp string is
  truthy.\<close>

definition is_merged :: "github_pull_request \<Rightarrow> bool" where
  "is_merged pr = (merged_at pr \<noteq> None)"

text \<open>The body of the \<open>reduce\<close> callback of lines 275-279: the merge duration of one pull
  request in hours, added to the running sum. (\<open>new Date(null).getTime()\<close> is 0; the
  callback only runs on pull requests that passed the filter.)\<close>

definition merge_hours :: "github_pull_request \<Rightarrow> real" where
  "merge_hours pr =
     (let createdAt = created_at pr;
          mergedAt = (case merged_at pr of None \<Rightarrow> 0 | Some m \<Rightarrow> m)
      in real_of_int (mergedAt - createdAt) / (1000 * 60 * 60))"

definition totalMergeTime :: "github_pull_request list \<Rightarrow> real" where
  "totalMergeTime mergedPRs = foldl (\<lambda>sum pr. sum + merge_hours pr) 0 mergedPRs"

text \<open>Lines 272-281. With no merged pull request the assignment is skipped and the
  field keeps the value the document was loaded with.\<close>

definition update_mergeTime :: "github_pull_request list \<Rightarrow> metrics \<Rightarrow> metrics" where
  "update_mergeTime closedPRs m =
     (let mergedPRs = filter is_merged closedPRs
      in if length mergedPRs > 0
         then m\<lparr>mergeTime := totalMergeTime mergedPRs / real (length mergedPRs)\<rparr>
         else m)"

text \<open>\<open>weekly.slice(-1)[0]\<close> is \<open>undefined\<close> on an empty array.\<close>

definition slice_last :: "int list \<Rightarrow> int option" where
  "slice_last weekly = (if weekly = [] then None else Some (last weekly))"

text \<open>Lines 300-305: the \<open>some\<close> callback. \<open>now\<close> is the value of \<open>Date.now()\<close>, taken to
  be the same throughout one refresh.\<close>

definition is_long_open :: "date \<Rightarrow> github_pull_request \<Rightarrow> bool" where
  "is_long_open now pr =
     (let createdAt = created_at pr;
          daysDiff = real_of_int (now - createdAt) / (1000 * 60 * 60 * 24)
      in daysDiff > 14)"

text \<open>Lines 308-321. \<open>slice(-2)[0]\<close> is the last but one element when there are two.\<close>

definition update_commitDrops :: "int list \<Rightarrow> alert_flags \<Rightarrow> alert_flags" where
  "update_commitDrops weekly a =
     (if length weekly \<ge> 2 then
        (let currentWeek = last weekly;
             previousWeek = weekly ! (length weekly - 2)
         in if previousWeek > 0 \<and> currentWeek = 0 then a\<lparr>commitDrops := True\<rparr>
            else if previousWeek > 0 \<and> real_of_int currentWeek / real_of_int previousWeek < 0.3
                 then a\<lparr>commitDrops := True\<rparr>
            else a\<lparr>commitDrops := False\<rparr>)
      else a)"

text \<open>Lines 250-324: everything between loading the document and \<open>repo.save()\<close>, on
  the in-memory document. The first rejected call ends it with that error.\<close>

definition refresh :: "github_service \<Rightarrow> date \<Rightarrow> string \<Rightarrow> repository \<Rightarrow> error + repository" where
  "refresh gh now tok repo0 =
     await (getRepo gh tok (owner repo0) (name repo0)) (\<lambda>githubRepo.
     let repo1 = repo0\<lparr>stars := stargazers_count githubRepo,
                       forks := forks_count githubRepo,
                       openIssues := open_issues_count githubRepo,
                       watchers := watchers_count githubRepo\<rparr>
     in
     await (getWeeklyCommitActivity gh tok (owner repo1) (name repo1)) (\<lambda>commitActivity.
     let weekly = map wk_total commitActivity;
         total = foldl (\<lambda>sum count. sum + count) 0 weekly;
         m1 = (metrics repo1)\<lparr>commits := \<lparr>commits_total = total, commits_weekly = weekly\<rparr>\<rparr>
     in
     await (getRepoPullRequests gh tok (owner repo1) (name repo1) ''open'') (\<lambda>openPRs.
     await (getRepoPullRequests gh tok (owner repo1) (name repo1) ''closed'') (\<lambda>closedPRs.
     let m2 = m1\<lparr>pullRequests :=
                   \<lparr>pr_open = int (length openPRs),
                    pr_closed = int (length (filter (\<lambda>pr. \<not> is_merged pr) closedPRs)),
                    pr_merged = int (length (filter is_merged closedPRs))\<rparr>\<rparr>;
         m3 = update_mergeTime closedPRs m2
     in
     await (getRepoIssues gh tok (owner repo1) (name repo1) ''open'') (\<lambda>openIssuesL.
     await (getRepoIssues gh tok (owner repo1) (name repo1) ''closed'') (\<lambda>closedIssuesL.
     let m4 = m3\<lparr>issues := \<lparr>issues_open = int (length openIssuesL),
                               issues_closed = int (length closedIssuesL)\<rparr>\<rparr>
     in
     await (getRepoContributors gh tok (owner repo1) (name repo1)) (\<lambda>contributorsL.
     let m5 = m4\<lparr>contributors := int (length contributorsL)\<rparr>;
         recentCommits = slice_last (commits_weekly (commits m5));
         a1 = (alerts repo1)\<lparr>noActivity := (recentCommits = Some 0)\<rparr>;
         a2 = a1\<lparr>longOpenPRs := list_ex (is_long_open now) openPRs\<rparr>;
         a3 = update_commitDrops (commits_weekly (commits m5)) a2
     in Inr (repo1\<lparr>metrics := m5, alerts := a3, lastFetched := now\<rparr>))))))))"

text \<open>
  Lines 242-331. The document is loaded, refreshed in memory and written back by the one
  \<open>repo.save()\<close> at the end of the \<open>try\<close> block; the \<open>catch\<close> logs and rethrows. The
  result is what the caller sees (the error or nothing) together with the database.
\<close>

definition updateRepoMetrics ::
  "github_service \<Rightarrow> date \<Rightarrow> db \<Rightarrow> object_id \<Rightarrow> string \<Rightarrow> (error + unit) \<times> db" where
  "updateRepoMetrics gh now d repoId tok =
     (case Repository_coll d repoId of
        None \<Rightarrow> (Inl (Error ''Repository not found''), d)
      | Some repo \<Rightarrow>
          (case refresh gh now tok repo of
             Inl e \<Rightarrow> (Inl e, d)
           | Inr repo' \<Rightarrow> (Inr (), d\<lparr>Repository_coll := (Repository_coll d)(repoId \<mapsto> repo')\<rparr>)))"

text \<open>The errors of the seven GitHub calls of one refresh, in the order the refresh makes
  them: empty when every call answers.\<close>

definition call_error :: "error + 'a \<Rightarrow> error list" where
  "call_error r = (case r of Inl e \<Rightarrow> [e] | Inr _ \<Rightarrow> [])"

definition github_errors :: "github_service \<Rightarrow> string \<Rightarrow> repository \<Rightarrow> error list" where
  "github_errors gh tok repo =
     call_error (getRepo gh tok (owner repo) (name repo)) @
     call_error (getWeeklyCommitActivity gh tok (owner repo) (name repo)) @
     call_error (getRepoPullRequests gh tok (owner repo) (name repo) ''open'') @
     call_error (getRepoPullRequests gh tok (owner repo) (name repo) ''closed'') @
     call_error (getRepoIssues gh tok (owner repo) (name repo) ''open'') @
     call_error (getRepoIssues gh tok (owner repo) (name repo) ''closed'') @
     call_error (getRepoContributors gh tok (owner repo) (name repo))"


section \<open>The controllers\<close>

text \<open>
  An Express handler ends by sending one response: \<open>res.status(code).json(body)\<close>. A
  handler is modelled as a function of the database, the authenticated user's \<open>_id\<close>
  (\<open>req.user._id\<close>) and the request's parameters, returning the response and the
  database after the request.
\<close>

datatype body = Message string | AlertJson alert | RepositoryJson repository

type_synonym response = "nat \<times> body"

subsection \<open>\<open>repo.controller.ts\<close>: \<open>disconnectRepo\<close>\<close>

text \<open>Lines 126-171. \<open>rid\<close> is \<open>req.params.id\<close>. The user is looked up first, then the
  repository; \<open>repo.users.includes\<close> on a Mongoose array compares \<open>ObjectId\<close>s by
  value.\<close>

definition disconnectRepo :: "db \<Rightarrow> object_id \<Rightarrow> object_id \<Rightarrow> response \<times> db" where
  "disconnectRepo d reqUser rid =
     (case User_coll d reqUser of
        None \<Rightarrow> ((404, Message ''User not found''), d)
      | Some user \<Rightarrow>
          (case Repository_coll d rid of
             None \<Rightarrow> ((404, Message ''Repository not found''), d)
           | Some repo \<Rightarrow>
               if reqUser \<notin> set (users repo)
               then ((403, Message ''Not authorized to disconnect this repository''), d)
               else
                 (let repo' = repo\<lparr>users := filter (\<lambda>userId. userId \<noteq> reqUser) (users repo)\<rparr>;
                      user' = user\<lparr>connectedRepos :=
                                filter (\<lambda>repoId. repoId \<noteq> rid) (connectedRepos user)\<rparr>;
                      repos' = (if length (users repo') = 0
                                then (Repository_coll d)(rid := None)
                                else (Repository_coll d)(rid \<mapsto> repo'))
                  in ((200, Message ''Repository disconnected successfully''),
                      d\<lparr>Repository_coll := repos',
                        User_coll := (User_coll d)(reqUser \<mapsto> user')\<rparr>))))"

subsection \<open>\<open>user.controller.ts\<close>: \<open>deleteUserAccount\<close>\<close>

text \<open>Lines 64-84. The handler deletes the user document and clears the cookies of the
  response; it makes no other call on any collection, and \<open>user.model.ts\<close> registers no
  hook on deletion.\<close>

definition deleteUserAccount :: "db \<Rightarrow> object_id \<Rightarrow> response \<times> db" where
  "deleteUserAccount d reqUser =
     (case User_coll d reqUser of
        None \<Rightarrow> ((404, Message ''User not found''), d)
      | Some user \<Rightarrow>
          ((200, Message ''User account deleted successfully''),
           d\<lparr>User_coll := (User_coll d)(reqUser := None)\<rparr>))"

subsection \<open>\<open>alert.controller.ts\<close>: \<open>updateAlertStatus\<close> and \<open>createAlert\<close>\<close>

text \<open>The strings of the \<open>type\<close> and \<open>status\<close> enumerations of \<open>alertSchema\<close>.\<close>

fun type_name :: "alert_type \<Rightarrow> string" where
  "type_name NoActivity = ''noActivity''"
| "type_name LongOpenPRs = ''longOpenPRs''"
| "type_name CommitDrops = ''commitDrops''"

definition type_of_name :: "string \<Rightarrow> alert_type option" where
  "type_of_name s = find (\<lambda>t. type_name t = s) [NoActivity, LongOpenPRs, CommitDrops]"

definition status_of_name :: "string \<Rightarrow> alert_status" where
  "status_of_name s =
     (if s = ''active'' then Active else if s = ''resolved'' then Resolved else Dismissed)"

text \<open>\<open>Alert.findById\<close>: the record at that position, if there is one.\<close>

definition findAlertById :: "alert list \<Rightarrow> object_id \<Rightarrow> alert option" where
  "findAlertById as i = (if i < length as then Some (as ! i) else None)"

text \<open>Lines 60-97. \<open>status\<close> is \<open>req.body.status\<close>, \<open>None\<close> when the body has none; an empty
  string is falsy. Any of the three status names is accepted, whatever the status of the
  record is; \<open>resolvedAt\<close> is stamped on the way to \<open>resolved\<close> or \<open>dismissed\<close> and is not
  cleared on the way to \<open>active\<close>.\<close>

definition updateAlertStatus ::
  "db \<Rightarrow> date \<Rightarrow> object_id \<Rightarrow> object_id \<Rightarrow> string option \<Rightarrow> response \<times> db" where
  "updateAlertStatus d now reqUser i status =
     (case status of
        None \<Rightarrow> ((400, Message ''Invalid status''), d)
      | Some s \<Rightarrow>
          if s = [] \<or> s \<notin> set [''active'', ''resolved'', ''dismissed'']
          then ((400, Message ''Invalid status''), d)
          else
            (case findAlertById (Alert_coll d) i of
               None \<Rightarrow> ((404, Message ''Alert not found''), d)
             | Some alert \<Rightarrow>
                 if alert_user alert \<noteq> reqUser
                 then ((403, Message ''Not authorized to update this alert''), d)
                 else
                   (let alert1 = alert\<lparr>alert_status := status_of_name s\<rparr>;
                        alert2 = (if s = ''resolved'' \<or> s = ''dismissed''
                                  then alert1\<lparr>resolvedAt := Some now\<rparr> else alert1)
                    in ((200, AlertJson alert2),
                        d\<lparr>Alert_coll := (Alert_coll d)[i := alert2]\<rparr>))))"

text \<open>The body of a \<open>POST /api/alert\<close> request: each field is \<open>None\<close> when the body does
  not have it.\<close>

record create_alert_body =
  repositoryId :: "object_id option"
  body_type :: "string option"
  body_message :: "string option"
  body_threshold :: "real option"
  body_value :: "real option"

text \<open>The query of lines 169-174: an active alert of this user, repository and type.\<close>

definition existingAlert :: "alert list \<Rightarrow> object_id \<Rightarrow> object_id \<Rightarrow> string \<Rightarrow> alert option" where
  "existingAlert as reqUser rid ty =
     find (\<lambda>a. alert_user a = reqUser \<and> alert_repository a = rid \<and>
                type_name (alert_type a) = ty \<and> alert_status a = Active) as"

text \<open>Lines 146-197. \<open>Alert.create\<close> validates \<open>type\<close> against the enumeration of the
  schema; a name outside it is rejected there, and the \<open>catch\<close> answers 500.\<close>

definition createAlert :: "db \<Rightarrow> object_id \<Rightarrow> create_alert_body \<Rightarrow> response \<times> db" where
  "createAlert d reqUser b =
     (case (repositoryId b, body_type b, body_message b, body_threshold b, body_value b) of
        (Some rid, Some ty, Some msg, Some th, Some v) \<Rightarrow>
          if ty = [] \<or> msg = [] then ((400, Message ''Missing required fields''), d)
          else
            (case Repository_coll d rid of
               None \<Rightarrow> ((404, Message ''Repository not found''), d)
             | Some repo \<Rightarrow>
                 if reqUser \<notin> set (users repo)
                 then ((403, Message ''Not authorized to create alerts for this repository''), d)
                 else
                   (case existingAlert (Alert_coll d) reqUser rid ty of
                      Some existing \<Rightarrow> ((400, Message ''Alert already exists''), d)
                    | None \<Rightarrow>
                        (case type_of_name ty of
                           None \<Rightarrow> ((500, Message ''Failed to create alert''), d)
                         | Some t \<Rightarrow>
                             (let alert = \<lparr>alert_user = reqUser, alert_repository = rid,
                                           alert_type = t, message = msg, threshold = th,
                                           alert_value = v, alert_status = Active,
                                           resolvedAt = None\<rparr>
                              in ((201, AlertJson alert),
                                  d\<lparr>Alert_coll := Alert_coll d @ [alert]\<rparr>)))))
      | _ \<Rightarrow> ((400, Message ''Missing required fields''), d))"

text \<open>The user, repository and type of every active alert, one entry per record: the
  invariant \<open>at most one active alert per user, repository and type\<close> is that this list
  has no duplicate.\<close>

definition active_keys :: "alert list \<Rightarrow> (object_id \<times> object_id \<times> alert_type) list" where
  "active_keys as =
     map (\<lambda>a. (alert_user a, alert_repository a, alert_type a))
         (filter (\<lambda>a. alert_status a = Active) as)"

definition one_active_per_key :: "alert list \<Rightarrow> bool" where
  "one_active_per_key as = distinct (active_keys as)"

section \<open>\<open>cron.service.ts\<close>: the weekly report job\<close>

subsection \<open>Report documents\<close>

text \<open>
  The object literal handed to \<open>new Report(...)\<close> or \<open>Report.create(...)\<close>. The keys
  \<open>user\<close>, \<open>repository\<close>, \<open>reportType\<close>, \<open>startDate\<close> and \<open>endDate\<close> are given by both
  callers; \<open>data\<close> and \<open>status\<close> by the on-demand handler only; \<open>reportData\<close> and \<open>sent\<close>
  by the scheduled job only. A key that the literal does not have is \<open>None\<close>.
\<close>

record report_literal =
  lit_user :: object_id
  lit_repository :: object_id
  lit_reportType :: frequency
  lit_startDate :: date
  lit_endDate :: date
  lit_data :: "report_data option"
  lit_status :: "report_status option"
  lit_reportData :: "metrics option"
  lit_sent :: "bool option"

text \<open>
  A document in memory: the paths of \<open>reportSchema\<close>, and a property \<open>sent\<close> that code may
  put on the JavaScript object. \<open>sent\<close> is not a path of the schema, so no \<open>save()\<close>
  writes it.
\<close>

record report_document =
  doc_fields :: report
  doc_sent :: "bool option"

text \<open>The defaults of \<open>reportSchema\<close> (lines 54-91) for \<open>data\<close>.\<close>

definition default_data :: report_data where
  "default_data =
     \<lparr>rd_commits = 0,
      rd_pullRequests = \<lparr>rpr_opened = 0, rpr_merged = 0, rpr_closed = 0\<rparr>,
      rd_issues = \<lparr>ri_opened = 0, ri_closed = 0\<rparr>,
      rd_contributors = 0, rd_mergeTime = 0\<rparr>"

text \<open>
  The model constructor on a schema in strict mode (Mongoose's default, which
  \<open>reportSchema\<close> does not change): paths of the schema are taken from the literal, a
  path the literal lacks gets its default (\<open>status\<close>: \<open>pending\<close>, \<open>sentAt\<close>: none), and keys
  that are no paths (\<open>reportData\<close>, \<open>sent\<close>) are dropped. \<open>createdAt\<close> is the timestamp that
  \<open>timestamps: true\<close> sets at the first save, taken to be the time of construction.
\<close>

definition Report_new :: "report_literal \<Rightarrow> date \<Rightarrow> report_document" where
  "Report_new lit now =
     \<lparr>doc_fields =
        \<lparr>report_user = lit_user lit, report_repository = lit_repository lit,
         reportType = lit_reportType lit, startDate = lit_startDate lit,
         endDate = lit_endDate lit,
         data = (case lit_data lit of None \<Rightarrow> default_data | Some x \<Rightarrow> x),
         sentAt = None,
         report_status = (case lit_status lit of None \<Rightarrow> Pending | Some s \<Rightarrow> s),
         createdAt = now\<rparr>,
      doc_sent = None\<rparr>"

subsection \<open>Collaborators of the job\<close>

text \<open>
  What the job consumes, each as the answer it gets: the scan of the user collection and,
  per user, of the repository collection (the query conditions are applied in the job's
  model below); per user and repository whether the first or the second \<open>report.save()\<close>
  is rejected; the email service's \<open>generateReportEmail(user, repo, report)\<close> and
  \<open>sendEmail(to, subject, content)\<close> as \<open>cron.service.ts\<close> calls them; and the dates
  that \<open>dateUtils\<close> computes from the clock and the time zone. Found documents carry their
  \<open>_id\<close>.
\<close>

record cron_env =
  users_scan :: "error + (object_id \<times> user) list"
  repositories_scan :: "object_id \<Rightarrow> error + (object_id \<times> repository) list"
  save_error :: "object_id \<Rightarrow> object_id \<Rightarrow> bool \<Rightarrow> error option"
  generateReportEmail :: "user \<Rightarrow> repository \<Rightarrow> report \<Rightarrow> error + string"
  sendEmail :: "string \<Rightarrow> string \<Rightarrow> string \<Rightarrow> error option"
  getStartOfWeek :: date
  getEndOfWeek :: date
  clock :: date

text \<open>The lines the job writes with \<open>console.log\<close> and \<open>console.error\<close>.\<close>

datatype log_entry =
  Log_running
| Log_found nat
| Log_generating string nat
| Log_sent string string
| Log_completed
| Error_repository string error
| Error_user string error
| Error_job error

record cron_state =
  cs_reports :: "report list"
  cs_log :: "log_entry list"

definition console :: "log_entry \<Rightarrow> cron_state \<Rightarrow> cron_state" where
  "console l st = st\<lparr>cs_log := cs_log st @ [l]\<rparr>"

subsection \<open>Control flow\<close>

text \<open>
  A block of statements takes the state and ends normally (\<open>None\<close>) or by a thrown error,
  in either case with the state it has reached. \<open>try { body } catch (error) {
  console.error(..., error) }\<close> ends normally in both cases; a \<open>for (const x of xs)\<close> loop
  ends with the first iteration that throws.
\<close>

type_synonym block = "cron_state \<Rightarrow> error option \<times> cron_state"

definition try_catch :: "block \<Rightarrow> (error \<Rightarrow> log_entry) \<Rightarrow> block" where
  "try_catch body handler st =
     (case body st of
        (None, st') \<Rightarrow> (None, st')
      | (Some e, st') \<Rightarrow> (None, console (handler e) st'))"

fun for_of :: "'a list \<Rightarrow> ('a \<Rightarrow> block) \<Rightarrow> block" where
  "for_of [] body st = (None, st)"
| "for_of (x # xs) body st =
     (case body x st of
        (Some e, st') \<Rightarrow> (Some e, st')
      | (None, st') \<Rightarrow> for_of xs body st')"

subsection \<open>The job\<close>

text \<open>Lines 62-76: the literal built for one user and repository.\<close>

definition weekly_literal :: "cron_env \<Rightarrow> object_id \<Rightarrow> object_id \<times> repository \<Rightarrow> report_literal" where
  "weekly_literal env uid r =
     \<lparr>lit_user = uid, lit_repository = fst r, lit_reportType = Weekly,
      lit_startDate = getStartOfWeek env, lit_endDate = getEndOfWeek env,
      lit_data = None, lit_status = None,
      lit_reportData = Some (metrics (snd r)), lit_sent = Some False\<rparr>"

text \<open>
  Lines 58-92, the body of the inner \<open>try\<close>. The first \<open>save()\<close> inserts the document at
  the end of the collection; the second one writes the document's schema paths over
  that record.
\<close>

definition report_for_repository ::
  "cron_env \<Rightarrow> object_id \<times> user \<Rightarrow> object_id \<times> repository \<Rightarrow> block" where
  "report_for_repository env u r st =
     (let report = Report_new (weekly_literal env (fst u) r) (clock env)
      in case save_error env (fst u) (fst r) False of
           Some e \<Rightarrow> (Some e, st)
         | None \<Rightarrow>
            (let k = length (cs_reports st);
                 st1 = st\<lparr>cs_reports := cs_reports st @ [doc_fields report]\<rparr>
             in case generateReportEmail env (snd u) (snd r) (doc_fields report) of
                  Inl e \<Rightarrow> (Some e, st1)
                | Inr emailContent \<Rightarrow>
                   (case sendEmail env (email (snd u))
                           (''Weekly Report for '' @ fullName (snd r)) emailContent of
                      Some e \<Rightarrow> (Some e, st1)
                    | None \<Rightarrow>
                       (let report' = report\<lparr>doc_sent := Some True\<rparr>
                        in case save_error env (fst u) (fst r) True of
                             Some e \<Rightarrow> (Some e, st1)
                           | None \<Rightarrow>
                              (let st2 = st1\<lparr>cs_reports :=
                                             (cs_reports st1)[k := doc_fields report']\<rparr>
                               in (None, console (Log_sent (fullName (snd r)) (email (snd u)))
                                           st2))))))"

text \<open>Lines 48-96, the body of the \<open>try\<close> for one user.\<close>

definition reports_for_user :: "cron_env \<Rightarrow> object_id \<times> user \<Rightarrow> block" where
  "reports_for_user env u st =
     (case repositories_scan env (fst u) of
        Inl e \<Rightarrow> (Some e, st)
      | Inr found \<Rightarrow>
         (let repositories = filter (\<lambda>r. fst u \<in> set (users (snd r))) found;
              st1 = console (Log_generating (username (snd u)) (length repositories)) st
          in for_of repositories
               (\<lambda>repo. try_catch (report_for_repository env u repo)
                                  (Error_repository (fullName (snd repo))))
               st1))"

text \<open>Lines 34-102, the body of the outer \<open>try\<close>.\<close>

definition all_weekly_reports :: "cron_env \<Rightarrow> block" where
  "all_weekly_reports env st =
     (let st0 = console Log_running st
      in case users_scan env of
           Inl e \<Rightarrow> (Some e, st0)
         | Inr found \<Rightarrow>
            (let users = filter (\<lambda>u. enabled (emailReports (snd u)) \<and>
                                      frequency (emailReports (snd u)) = Weekly) found;
                 st1 = console (Log_found (length users)) st0
             in case for_of users
                       (\<lambda>user. try_catch (reports_for_user env user)
                                          (Error_user (username (snd user))))
                       st1 of
                  (Some e, st2) \<Rightarrow> (Some e, st2)
                | (None, st2) \<Rightarrow> (None, console Log_completed st2)))"

text \<open>Lines 33-106: the callback that \<open>cron.schedule\<close> runs every Sunday at 00:00.\<close>

definition scheduleWeeklyReports :: "cron_env \<Rightarrow> block" where
  "scheduleWeeklyReports env = try_catch (all_weekly_reports env) Error_job"

text \<open>The four calls of one iteration that can be rejected all succeed: both saves, the
  rendering of the email and its delivery.\<close>

definition delivery_succeeds :: "cron_env \<Rightarrow> object_id \<times> user \<Rightarrow> object_id \<times> repository \<Rightarrow> bool" where
  "delivery_succeeds env u r =
     (save_error env (fst u) (fst r) False = None \<and>
      (case generateReportEmail env (snd u) (snd r)
              (doc_fields (Report_new (weekly_literal env (fst u) r) (clock env))) of
         Inl e \<Rightarrow> False
       | Inr emailContent \<Rightarrow>
           sendEmail env (email (snd u)) (''Weekly Report for '' @ fullName (snd r)) emailContent
             = None) \<and>
      save_error env (fst u) (fst r) True = None)"

text \<open>The user is selected by the query of the job.\<close>

definition weekly_enabled :: "object_id \<times> user \<Rightarrow> bool" where
  "weekly_enabled u =
     (enabled (emailReports (snd u)) \<and> frequency (emailReports (snd u)) = Weekly)"

text \<open>Nothing logged or stored in the first state is missing in the second.\<close>

definition grows :: "cron_state \<Rightarrow> cron_state \<Rightarrow> bool" where
  "grows st st' =
     (set (cs_log st) \<subseteq> set (cs_log st') \<and> set (cs_reports st) \<subseteq> set (cs_reports st'))"

text \<open>What one iteration for user \<open>u\<close> and repository \<open>r\<close> leaves behind: the line
  \<open>Report sent\<close> if its four calls succeed and an error line for the repository if one
  is rejected, and a stored report for the pair if the first save succeeds.\<close>

definition outcome :: "cron_env \<Rightarrow> object_id \<times> user \<Rightarrow> object_id \<times> repository \<Rightarrow> cron_state \<Rightarrow> bool" where
  "outcome env u r s =
     ((delivery_succeeds env u r \<longrightarrow>
         Log_sent (fullName (snd r)) (email (snd u)) \<in> set (cs_log s)) \<and>
      (\<not> delivery_succeeds env u r \<longrightarrow>
         (\<exists>e. Error_repository (fullName (snd r)) e \<in> set (cs_log s))) \<and>
      (save_error env (fst u) (fst r) False = None \<longrightarrow>
         (\<exists>rep \<in> set (cs_reports s). report_user rep = fst u \<and> report_repository rep = fst r)))"

section \<open>\<open>csvExporter.ts\<close>: \<open>generateReportCsv\<close>\<close>

subsection \<open>JavaScript values\<close>

text \<open>
  \<open>generateReportCsv(report: any, repository: any)\<close> is written against untyped values,
  so it is modelled on JavaScript values: what a property read gives (\<open>undefined\<close> for a
  property the object does not have, a \<open>TypeError\<close> when the base is \<open>undefined\<close> or
  \<open>null\<close>), which values are truthy, and how a template literal turns a value into text.
  Printing a number and an ISO date are built-ins of the runtime and are parameters.
\<close>

datatype jsval =
  JUndefined
| JNull
| JBool bool
| JNum real
| JStr string
| JDate date
| JArr "jsval list"
| JObj "(string \<times> jsval) list"

record js_builtins =
  Number_toString :: "real \<Rightarrow> string"
  Number_toFixed :: "real \<Rightarrow> nat \<Rightarrow> string"
  Date_toISOString :: "date \<Rightarrow> string"
  Date_toString :: "date \<Rightarrow> string"

fun get_prop :: "jsval \<Rightarrow> string \<Rightarrow> error + jsval" where
  "get_prop JUndefined k = Inl (TypeError (''Cannot read properties of undefined (reading '' @ k @ '')''))"
| "get_prop JNull k = Inl (TypeError (''Cannot read properties of null (reading '' @ k @ '')''))"
| "get_prop (JObj kvs) k = Inr (case map_of kvs k of None \<Rightarrow> JUndefined | Some v \<Rightarrow> v)"
| "get_prop (JArr xs) k = Inr (if k = ''length'' then JNum (real (length xs)) else JUndefined)"
| "get_prop (JStr s) k = Inr (if k = ''length'' then JNum (real (length s)) else JUndefined)"
| "get_prop v k = Inr JUndefined"

fun truthy :: "jsval \<Rightarrow> bool" where
  "truthy JUndefined = False"
| "truthy JNull = False"
| "truthy (JBool b) = b"
| "truthy (JNum n) = (n \<noteq> 0)"
| "truthy (JStr s) = (s \<noteq> [])"
| "truthy v = True"

text \<open>\<open>a || b\<close>.\<close>

definition or_else :: "jsval \<Rightarrow> jsval \<Rightarrow> jsval" where
  "or_else a b = (if truthy a then a else b)"

text \<open>\<open>v > 0\<close> for the values a \<open>length\<close> property can have here: a number compares as
  itself, \<open>undefined\<close> becomes \<open>NaN\<close> and compares false.\<close>

fun gt_zero :: "jsval \<Rightarrow> bool" where
  "gt_zero (JNum n) = (n > 0)"
| "gt_zero (JBool b) = b"
| "gt_zero v = False"

definition comma_join :: "string list \<Rightarrow> string" where
  "comma_join ss = (case ss of [] \<Rightarrow> [] | s # rest \<Rightarrow> foldl (\<lambda>acc t. acc @ '','' @ t) s rest)"

text \<open>\<open>`${v}`\<close>. An array prints its elements joined by commas, \<open>null\<close> and \<open>undefined\<close>
  elements as empty.\<close>

fun to_string :: "js_builtins \<Rightarrow> jsval \<Rightarrow> string" where
  "to_string js JUndefined = ''undefined''"
| "to_string js JNull = ''null''"
| "to_string js (JBool b) = (if b then ''true'' else ''false'')"
| "to_string js (JNum n) = Number_toString js n"
| "to_string js (JStr s) = s"
| "to_string js (JDate d) = Date_toString js d"
| "to_string js (JArr xs) =
     comma_join (map (\<lambda>x. if x = JUndefined \<or> x = JNull then [] else to_string js x) xs)"
| "to_string js (JObj kvs) = ''[object Object]''"

definition nl :: string where
  "nl = [CHR 0x0A]"

text \<open>\<open>dateUtils.formatDate\<close>: \<open>date.toISOString().split('T')[0]\<close>.\<close>

definition formatDate :: "js_builtins \<Rightarrow> jsval \<Rightarrow> error + string" where
  "formatDate js v =
     (case v of
        JDate d \<Rightarrow> Inr (takeWhile (\<lambda>c. c \<noteq> CHR ''T'') (Date_toISOString js d))
      | JUndefined \<Rightarrow> Inl (TypeError ''Cannot read properties of undefined (reading toISOString)'')
      | JNull \<Rightarrow> Inl (TypeError ''Cannot read properties of null (reading toISOString)'')
      | _ \<Rightarrow> Inl (TypeError ''date.toISOString is not a function''))"

text \<open>\<open>xs.forEach((x) => { csv += `,${x.k1},${x.k2} suffix\n` })\<close>.\<close>

fun rows :: "js_builtins \<Rightarrow> string \<Rightarrow> string \<Rightarrow> string \<Rightarrow> jsval list \<Rightarrow> string \<Rightarrow> error + string" where
  "rows js k1 k2 suffix [] csv = Inr csv"
| "rows js k1 k2 suffix (x # xs) csv =
     await (get_prop x k1) (\<lambda>a.
     await (get_prop x k2) (\<lambda>b.
     rows js k1 k2 suffix xs
       (csv @ '','' @ to_string js a @ '','' @ to_string js b @ suffix @ nl)))"

definition forEach_rows ::
  "js_builtins \<Rightarrow> string \<Rightarrow> string \<Rightarrow> string \<Rightarrow> jsval \<Rightarrow> string \<Rightarrow> error + string" where
  "forEach_rows js k1 k2 suffix v csv =
     (case v of
        JArr xs \<Rightarrow> rows js k1 k2 suffix xs csv
      | _ \<Rightarrow> Inl (TypeError ''forEach is not a function''))"

text \<open>\<open>if (list && list.length > 0) { csv += title; list.forEach(...) }\<close>.\<close>

definition optional_rows ::
  "js_builtins \<Rightarrow> string \<Rightarrow> string \<Rightarrow> string \<Rightarrow> string \<Rightarrow> jsval \<Rightarrow> string \<Rightarrow> error + string" where
  "optional_rows js title k1 k2 suffix list csv =
     (if truthy list then
        await (get_prop list ''length'') (\<lambda>len.
        if gt_zero len then forEach_rows js k1 k2 suffix list (csv @ title @ nl) else Inr csv)
      else Inr csv)"

subsection \<open>The exporter\<close>

text \<open>Lines 24-43.\<close>

definition commits_section :: "js_builtins \<Rightarrow> jsval \<Rightarrow> string \<Rightarrow> error + string" where
  "commits_section js commitsV csv =
     (if truthy commitsV then
        await (get_prop commitsV ''total'') (\<lambda>total.
        let csv1 = csv @ ''Total Commits,'' @ to_string js total @ '','' @ nl in
        await (get_prop commitsV ''byAuthor'') (\<lambda>byAuthor.
        await (optional_rows js ''Commits by Author,'' ''name'' ''count'' '' commits'' byAuthor csv1)
          (\<lambda>csv2.
        await (get_prop commitsV ''byDay'') (\<lambda>byDay.
        optional_rows js ''Commits by Day,'' ''date'' ''count'' '' commits'' byDay csv2))))
      else Inr csv)"

text \<open>Lines 45-52. \<open>mergeTime.toFixed(2)\<close> is a method of numbers only.\<close>

definition pullRequests_section ::
  "js_builtins \<Rightarrow> jsval \<Rightarrow> jsval \<Rightarrow> string \<Rightarrow> error + string" where
  "pullRequests_section js prs mergeTimeV csv =
     (if truthy prs then
        await (get_prop prs ''total'') (\<lambda>total.
        await (get_prop prs ''open'') (\<lambda>openV.
        await (get_prop prs ''closed'') (\<lambda>closedV.
        await (get_prop prs ''merged'') (\<lambda>mergedV.
        await (if truthy mergeTimeV
               then (case mergeTimeV of
                       JNum n \<Rightarrow> Inr (Number_toFixed js n 2 @ '' hours'')
                     | _ \<Rightarrow> Inl (TypeError ''toFixed is not a function''))
               else Inr ''N/A'') (\<lambda>average.
        Inr (csv @ nl @ ''Pull Requests,'' @ to_string js total @ '','' @ nl
                 @ ''Open Pull Requests,'' @ to_string js openV @ '','' @ nl
                 @ ''Closed Pull Requests,'' @ to_string js closedV @ '','' @ nl
                 @ ''Merged Pull Requests,'' @ to_string js mergedV @ '','' @ nl
                 @ ''Average Merge Time,'' @ average @ '','' @ nl))))))
      else Inr csv)"

text \<open>Lines 54-59.\<close>

definition issues_section :: "js_builtins \<Rightarrow> jsval \<Rightarrow> string \<Rightarrow> error + string" where
  "issues_section js issuesV csv =
     (if truthy issuesV then
        await (get_prop issuesV ''total'') (\<lambda>total.
        await (get_prop issuesV ''open'') (\<lambda>openV.
        await (get_prop issuesV ''closed'') (\<lambda>closedV.
        Inr (csv @ nl @ ''Issues,'' @ to_string js total @ '','' @ nl
                 @ ''Open Issues,'' @ to_string js openV @ '','' @ nl
                 @ ''Closed Issues,'' @ to_string js closedV @ '','' @ nl))))
      else Inr csv)"

text \<open>
  Lines 11-70. The payload is read from \<open>report.reportData\<close> throughout: the commit total
  from \<open>reportData.commits.total\<close>, the pull-request counts from
  \<open>reportData.pullRequests.{total, open, closed, merged}\<close>, the issue counts from
  \<open>reportData.issues.{total, open, closed}\<close>.
\<close>

definition generateReportCsv :: "js_builtins \<Rightarrow> jsval \<Rightarrow> jsval \<Rightarrow> error + string" where
  "generateReportCsv js reportV repositoryV =
     (let csv0 = ''Metric,Value,Details'' @ nl in
      await (get_prop repositoryV ''fullName'') (\<lambda>fullNameV.
      await (get_prop repositoryV ''description'') (\<lambda>descriptionV.
      let csv1 = csv0 @ ''Repository,'' @ to_string js fullNameV @ '','' @
                   to_string js (or_else descriptionV (JStr ''No description'')) @ nl in
      await (get_prop reportV ''startDate'') (\<lambda>startV.
      await (formatDate js startV) (\<lambda>startS.
      await (get_prop reportV ''endDate'') (\<lambda>endV.
      await (formatDate js endV) (\<lambda>endS.
      await (get_prop reportV ''reportType'') (\<lambda>reportTypeV.
      let csv2 = csv1 @ ''Report Period,'' @ startS @ '' to '' @ endS @ '','' @
                   to_string js reportTypeV @ '' report'' @ nl in
      await (get_prop reportV ''createdAt'') (\<lambda>createdV.
      await (formatDate js createdV) (\<lambda>createdS.
      let csv3 = csv2 @ ''Generated On,'' @ createdS @ '','' @ nl;
          csv4 = csv3 @ nl;
          csv5 = csv4 @ ''METRICS SUMMARY,'' @ nl in
      await (get_prop reportV ''reportData'') (\<lambda>reportData.
      await (get_prop reportData ''commits'') (\<lambda>commitsV.
      await (commits_section js commitsV csv5) (\<lambda>csv6.
      await (get_prop reportData ''pullRequests'') (\<lambda>prs.
      await (get_prop reportData ''mergeTime'') (\<lambda>mergeTimeV.
      await (pullRequests_section js prs mergeTimeV csv6) (\<lambda>csv7.
      await (get_prop reportData ''issues'') (\<lambda>issuesV.
      await (issues_section js issuesV csv7) (\<lambda>csv8.
      await (get_prop reportData ''contributors'') (\<lambda>contributorsV.
      optional_rows js (nl @ ''Contributors,'') ''name'' ''contributions'' '' contributions''
        contributorsV csv8)))))))))))))))))))"

subsection \<open>Report and repository documents as JavaScript values\<close>

text \<open>
  What \<open>exportReport\<close> hands to the exporter: the report document found by
  \<open>Report.findById(id).populate('repository')\<close> and its populated repository. A document
  has the paths of its schema as properties; the report's payload is under \<open>data\<close>, with
  \<open>commits\<close> a number and the counts under \<open>opened\<close>, \<open>merged\<close>, \<open>closed\<close>.
\<close>

fun frequency_name :: "frequency \<Rightarrow> string" where
  "frequency_name Daily = ''daily''"
| "frequency_name Weekly = ''weekly''"
| "frequency_name Monthly = ''monthly''"

fun report_status_name :: "report_status \<Rightarrow> string" where
  "report_status_name Pending = ''pending''"
| "report_status_name Sent = ''sent''"
| "report_status_name Failed = ''failed''"

definition repository_js :: "repository \<Rightarrow> jsval" where
  "repository_js r =
     JObj [(''owner'', JStr (owner r)), (''name'', JStr (name r)),
           (''fullName'', JStr (fullName r)),
           (''description'', (case description r of None \<Rightarrow> JUndefined | Some s \<Rightarrow> JStr s)),
           (''url'', JStr (url r)), (''apiUrl'', JStr (apiUrl r)),
           (''stars'', JNum (real_of_int (stars r))), (''forks'', JNum (real_of_int (forks r))),
           (''openIssues'', JNum (real_of_int (openIssues r))),
           (''watchers'', JNum (real_of_int (watchers r))),
           (''defaultBranch'', JStr (defaultBranch r)), (''lastFetched'', JDate (lastFetched r))]"

definition report_data_js :: "report_data \<Rightarrow> jsval" where
  "report_data_js d =
     JObj [(''commits'', JNum (real_of_int (rd_commits d))),
           (''pullRequests'',
              JObj [(''opened'', JNum (real_of_int (rpr_opened (rd_pullRequests d)))),
                    (''merged'', JNum (real_of_int (rpr_merged (rd_pullRequests d)))),
                    (''closed'', JNum (real_of_int (rpr_closed (rd_pullRequests d))))]),
           (''issues'',
              JObj [(''opened'', JNum (real_of_int (ri_opened (rd_issues d)))),
                    (''closed'', JNum (real_of_int (ri_closed (rd_issues d))))]),
           (''contributors'', JNum (real_of_int (rd_contributors d))),
           (''mergeTime'', JNum (rd_mergeTime d))]"

definition report_js :: "report \<Rightarrow> jsval \<Rightarrow> jsval" where
  "report_js rep repositoryV =
     JObj [(''user'', JNum (real (report_user rep))),
           (''repository'', repositoryV),
           (''reportType'', JStr (frequency_name (reportType rep))),
           (''startDate'', JDate (startDate rep)),
           (''endDate'', JDate (endDate rep)),
           (''data'', report_data_js (data rep)),
           (''sentAt'', (case sentAt rep of None \<Rightarrow> JUndefined | Some t \<Rightarrow> JDate t)),
           (''status'', JStr (report_status_name (report_status rep))),
           (''createdAt'', JDate (createdAt rep)),
           (''updatedAt'', JDate (createdAt rep))]"

section \<open>\<open>email.service.ts\<close>: \<open>generateReportEmail\<close> as the job calls it\<close>

text \<open>
  \<open>EmailService.generateReportEmail(data)\<close> (lines 51-195) takes one object and returns
  one template literal. The literal has thirteen interpolations, evaluated from left to
  right; its fixed HTML text between them is the parameter \<open>html\<close> (\<open>html 0\<close> before the
  first interpolation, \<open>html 13\<close> after the last).
\<close>





section \<open>Example inputs\<close>

text \<open>A repository \<open>octo/demo\<close> with one subscriber, refreshed before: it stores an average
  merge time of 5 hours and a raised \<open>commitDrops\<close> flag.\<close>

definition example_repo :: repository where
  "example_repo =
     \<lparr>owner = ''octo'', name = ''demo'', fullName = ''octo/demo'', description = None,
      url = ''https://github.com/octo/demo'', apiUrl = ''https://api.github.com/repos/octo/demo'',
      stars = 0, forks = 0, openIssues = 0, watchers = 0, defaultBranch = ''main'',
      lastFetched = 0, users = [1],
      metrics = \<lparr>commits = \<lparr>commits_total = 8, commits_weekly = [8]\<rparr>,
                 pullRequests = \<lparr>pr_open = 0, pr_closed = 0, pr_merged = 2\<rparr>,
                 issues = \<lparr>issues_open = 0, issues_closed = 0\<rparr>,
                 contributors = 1, mergeTime = 5\<rparr>,
      alerts = \<lparr>noActivity = False, longOpenPRs = False, commitDrops = True\<rparr>\<rparr>"

definition example_user :: user where
  "example_user =
     \<lparr>githubId = ''42'', username = ''octo'', email = ''octo@example.org'', accessToken = ''tok'',
      emailReports = \<lparr>enabled = True, frequency = Weekly, lastSent = None\<rparr>,
      connectedRepos = [0]\<rparr>"

definition example_db :: db where
  "example_db =
     \<lparr>Repository_coll = [0 \<mapsto> example_repo], User_coll = [1 \<mapsto> example_user],
      Alert_coll = [], Report_coll = []\<rparr>"

definition example_github :: "int list \<Rightarrow> github_pull_request list \<Rightarrow> github_service" where
  "example_github weekly closedPRs =
     \<lparr>getRepo = (\<lambda>tok ow nm. Inr \<lparr>stargazers_count = 3, forks_count = 1,
                                   open_issues_count = 0, watchers_count = 3\<rparr>),
      getWeeklyCommitActivity =
        (\<lambda>tok ow nm. Inr (map (\<lambda>t. \<lparr>wk_week = 0, wk_total = t, wk_days = []\<rparr>) weekly)),
      getRepoPullRequests = (\<lambda>tok ow nm state. if state = ''closed'' then Inr closedPRs else Inr []),
      getRepoIssues = (\<lambda>tok ow nm state. Inr []),
      getRepoContributors = (\<lambda>tok ow nm. Inr [])\<rparr>"

definition failing_github :: github_service where
  "failing_github =
     (example_github [4, 0] [])\<lparr>getRepoIssues :=
        (\<lambda>tok ow nm state. if state = ''closed''
                            then Inl (Error ''GitHub API Error: Bad credentials'') else Inr [])\<rparr>"

definition example_closedPRs :: "github_pull_request list" where
  "example_closedPRs =
     [\<lparr>pr_number = 1, created_at = 0, merged_at = Some 7200000\<rparr>,
      \<lparr>pr_number = 2, created_at = 3600000, merged_at = None\<rparr>,
      \<lparr>pr_number = 3, created_at = 3600000, merged_at = Some 18000000\<rparr>]"

definition unmerged_closedPRs :: "github_pull_request list" where
  "unmerged_closedPRs = [\<lparr>pr_number = 2, created_at = 3600000, merged_at = None\<rparr>]"


text \<open>The same repository with a second subscriber.\<close>

definition shared_db :: db where
  "shared_db =
     \<lparr>Repository_coll = [0 \<mapsto> example_repo\<lparr>users := [1, 2]\<rparr>],
      User_coll = [1 \<mapsto> example_user, 2 \<mapsto> example_user\<lparr>githubId := ''43'', username := ''hexa''\<rparr>],
      Alert_coll = [], Report_coll = []\<rparr>"

text \<open>A request to create a \<open>commitDrops\<close> alert on repository 0.\<close>

definition example_body :: create_alert_body where
  "example_body =
     \<lparr>repositoryId = Some 0, body_type = Some ''commitDrops'',
      body_message = Some ''Commits dropped'', body_threshold = Some 70, body_value = Some 90\<rparr>"

text \<open>The example database with one alert of user 1 on repository 0, resolved earlier.\<close>

definition resolved_db :: db where
  "resolved_db =
     example_db\<lparr>Alert_coll :=
       [\<lparr>alert_user = 1, alert_repository = 0, alert_type = CommitDrops,
         message = ''Commits dropped'', threshold = 70, alert_value = 90,
         alert_status = Resolved, resolvedAt = Some 2000\<rparr>]\<rparr>"

text \<open>
  Three users with weekly reports enabled. Users 1 and 3 subscribe to one repository
  each, user 2 to two. For user 2 the email for \<open>hexa/lib\<close> cannot be generated; the
  repositories of user 3 cannot be loaded. Everything else succeeds.
\<close>

definition user_hexa :: user where
  "user_hexa = example_user\<lparr>githubId := ''43'', username := ''hexa'', email := ''hexa@example.org'',
                             connectedRepos := [1, 2]\<rparr>"

definition user_nona :: user where
  "user_nona = example_user\<lparr>githubId := ''44'', username := ''nona'', email := ''nona@example.org'',
                             connectedRepos := [3]\<rparr>"

definition repo_lib :: repository where
  "repo_lib = example_repo\<lparr>owner := ''hexa'', name := ''lib'', fullName := ''hexa/lib'', users := [2]\<rparr>"

definition repo_app :: repository where
  "repo_app = example_repo\<lparr>owner := ''hexa'', name := ''app'', fullName := ''hexa/app'', users := [2]\<rparr>"

definition example_env :: cron_env where
  "example_env =
     \<lparr>users_scan = Inr [(1, example_user), (2, user_hexa), (3, user_nona)],
      repositories_scan =
        (\<lambda>uid. if uid = 3 then Inl (Error ''connection lost'')
                else Inr [(0, example_repo), (1, repo_lib), (2, repo_app)]),
      save_error = (\<lambda>uid rid again. None),
      generateReportEmail =
        (\<lambda>u r rep. if fullName r = ''hexa/lib'' then Inl (TypeError ''cannot render'')
                    else Inr (''<html>'' @ fullName r @ ''</html>'')),
      sendEmail = (\<lambda>to subject content. None),
      getStartOfWeek = 1000, getEndOfWeek = 2000, clock = 1500\<rparr>"

definition empty_state :: cron_state where
  "empty_state = \<lparr>cs_reports = [], cs_log = []\<rparr>"

text \<open>
  A stored report of user 1 on repository 0, and an object that is no report record but
  has the shape the exporter reads: a \<open>reportData\<close> property holding a metrics snapshot.
  The example built-ins print whole numbers in decimal and one fixed date.
\<close>

definition example_report :: report where
  "example_report =
     \<lparr>report_user = 1, report_repository = 0, reportType = Weekly,
      startDate = 1000, endDate = 2000,
      data = \<lparr>rd_commits = 12,
              rd_pullRequests = \<lparr>rpr_opened = 3, rpr_merged = 2, rpr_closed = 1\<rparr>,
              rd_issues = \<lparr>ri_opened = 4, ri_closed = 5\<rparr>,
              rd_contributors = 2, rd_mergeTime = 3\<rparr>,
      sentAt = Some 1500, report_status = Sent, createdAt = 1500\<rparr>"

fun digits :: "nat \<Rightarrow> string" where
  "digits n = (if n < 10 then [''0123456789'' ! n] else digits (n div 10) @ [''0123456789'' ! (n mod 10)])"

definition example_builtins :: js_builtins where
  "example_builtins =
     \<lparr>Number_toString = (\<lambda>x. digits (nat \<lfloor>x\<rfloor>)),
      Number_toFixed = (\<lambda>x k. digits (nat \<lfloor>x\<rfloor>) @ ''.00''),
      Date_toISOString = (\<lambda>d. ''1970-01-01T00:00:01.000Z''),
      Date_toString = (\<lambda>d. ''Thu Jan 01 1970'')\<rparr>"

definition snapshot_object :: jsval where
  "snapshot_object =
     JObj [(''reportType'', JStr ''weekly''), (''startDate'', JDate 1000), (''endDate'', JDate 2000),
           (''createdAt'', JDate 1500),
           (''reportData'',
              JObj [(''commits'', JObj [(''total'', JNum 12), (''weekly'', JArr [JNum 5, JNum 7])]),
                    (''pullRequests'', JObj [(''open'', JNum 3), (''closed'', JNum 1), (''merged'', JNum 2)]),
                    (''issues'', JObj [(''open'', JNum 4), (''closed'', JNum 5)]),
                    (''contributors'', JNum 2), (''mergeTime'', JNum 3)])]"


section \<open>Properties of the metrics refresh\<close>

lemma refresh_Inl:
  "github_errors gh tok repo \<noteq> [] \<Longrightarrow> refresh gh now tok repo = Inl (hd (github_errors gh tok repo))"
  by (simp add: refresh_def await_def github_errors_def call_error_def Let_def split: sum.splits)

lemma await_Inr_iff: "await r k = Inr y \<longleftrightarrow> (\<exists>v. r = Inr v \<and> k v = Inr y)"
  by (cases r) (simp_all add: await_def)

lemma commits_update_mergeTime [simp]: "commits (update_mergeTime c m) = commits m"
  by (simp add: update_mergeTime_def Let_def)

lemma refresh_Inr:
  assumes "refresh gh now tok repo = Inr repo'"
  shows "\<exists>githubRepo act openPRs closedPRs.
           getRepo gh tok (owner repo) (name repo) = Inr githubRepo \<and>
           getWeeklyCommitActivity gh tok (owner repo) (name repo) = Inr act \<and>
           getRepoPullRequests gh tok (owner repo) (name repo) ''open'' = Inr openPRs \<and>
           getRepoPullRequests gh tok (owner repo) (name repo) ''closed'' = Inr closedPRs \<and>
           commits_weekly (commits (metrics repo')) = map wk_total act \<and>
           mergeTime (metrics repo') = mergeTime (update_mergeTime closedPRs (metrics repo)) \<and>
           commitDrops (alerts repo') = commitDrops (update_commitDrops (map wk_total act) (alerts repo))"
proof -
  have mt: "mergeTime (update_mergeTime c (m\<lparr>commits := a, pullRequests := b\<rparr>)) = mergeTime (update_mergeTime c m)" for c m a b
    by (simp add: update_mergeTime_def Let_def)
  have cd: "commitDrops (update_commitDrops w (a\<lparr>noActivity := x, longOpenPRs := y\<rparr>)) = commitDrops (update_commitDrops w a)" for w a x y
    by (simp add: update_commitDrops_def Let_def)
  show ?thesis
    using assms
    by (clarsimp simp add: refresh_def await_Inr_iff Let_def mt cd)
qed


lemma totalMergeTime_sum: "totalMergeTime prs = (\<Sum>pr\<leftarrow>prs. merge_hours pr)"
proof -
  have "foldl (\<lambda>sum pr. sum + merge_hours pr) a prs = a + (\<Sum>pr\<leftarrow>prs. merge_hours pr)" for a
    by (induction prs arbitrary: a) simp_all
  then show ?thesis by (simp add: totalMergeTime_def)
qed

lemma merge_hours_merged:
  "is_merged pr \<Longrightarrow> merge_hours pr = real_of_int (the (merged_at pr) - created_at pr) / 3600000"
  by (auto simp add: is_merged_def merge_hours_def Let_def)

lemma updateRepoMetrics_Inr:
  assumes "Repository_coll d repoId = Some old"
    and "updateRepoMetrics gh now d repoId tok = (Inr (), d')"
  shows "\<exists>new. refresh gh now tok old = Inr new \<and> Repository_coll d' repoId = Some new"
  using assms by (auto simp add: updateRepoMetrics_def split: sum.splits)

text \<open>
  Claim C1, as amended. After a refresh that succeeds, the stored \<open>mergeTime\<close> is the
  arithmetic mean, in hours, of \<open>mergedAt - createdAt\<close> over the merged pull requests among
  the closed ones fetched in that refresh, when there is at least one. When there is none
  the refresh does not assign the field: the stored \<open>mergeTime\<close> is the value stored
  before the refresh (0 only if that was 0, as in a repository never refreshed, whose
  field has the schema default). The stored value is non-negative whenever the value
  stored before was and every merged pull request was merged no earlier than it was
  created.
\<close>

theorem mergeTime_after_refresh:
  assumes found: "Repository_coll d repoId = Some old"
    and ok: "updateRepoMetrics gh now d repoId tok = (Inr (), d')"
    and fetched: "getRepoPullRequests gh tok (owner old) (name old) ''closed'' = Inr closedPRs"
    and merged: "mergedPRs = filter (\<lambda>pr. merged_at pr \<noteq> None) closedPRs"
  shows "\<exists>new. Repository_coll d' repoId = Some new \<and>
           (mergedPRs \<noteq> [] \<longrightarrow>
              mergeTime (metrics new) =
                (\<Sum>pr\<leftarrow>mergedPRs. real_of_int (the (merged_at pr) - created_at pr) / 3600000)
                  / real (length mergedPRs)) \<and>
           (mergedPRs = [] \<longrightarrow> mergeTime (metrics new) = mergeTime (metrics old)) \<and>
           (0 \<le> mergeTime (metrics old) \<and>
            list_all (\<lambda>pr. created_at pr \<le> the (merged_at pr)) mergedPRs \<longrightarrow>
              0 \<le> mergeTime (metrics new))"
proof -
  from updateRepoMetrics_Inr [OF found ok] obtain new where
    r: "refresh gh now tok old = Inr new" and s: "Repository_coll d' repoId = Some new"
    by blast
  from refresh_Inr [OF r] fetched have
    m: "mergeTime (metrics new) = mergeTime (update_mergeTime closedPRs (metrics old))"
    by auto
  have mp: "mergedPRs = filter is_merged closedPRs"
    using merged by (simp add: is_merged_def [abs_def])
  have sum_eq: "(\<Sum>pr\<leftarrow>mergedPRs. merge_hours pr) =
      (\<Sum>pr\<leftarrow>mergedPRs. real_of_int (the (merged_at pr) - created_at pr) / 3600000)"
    unfolding mp by (rule arg_cong [where f = sum_list], rule map_cong) (auto simp add: merge_hours_merged)
  have some: "mergedPRs \<noteq> [] \<Longrightarrow> mergeTime (update_mergeTime closedPRs (metrics old)) =
      (\<Sum>pr\<leftarrow>mergedPRs. real_of_int (the (merged_at pr) - created_at pr) / 3600000)
        / real (length mergedPRs)"
    using sum_eq by (simp add: update_mergeTime_def Let_def mp totalMergeTime_sum)
  have none: "mergedPRs = [] \<Longrightarrow> update_mergeTime closedPRs (metrics old) = metrics old"
    by (simp add: update_mergeTime_def Let_def mp)
  have nonneg: "0 \<le> (\<Sum>pr\<leftarrow>mergedPRs. real_of_int (the (merged_at pr) - created_at pr) / 3600000)"
    if "list_all (\<lambda>pr. created_at pr \<le> the (merged_at pr)) mergedPRs"
    using that by (intro sum_list_nonneg) (auto simp add: list_all_iff)
  show ?thesis
  proof (cases "mergedPRs = []")
    case True
    with s m none show ?thesis by auto
  next
    case False
    with s m some nonneg show ?thesis by (auto intro!: divide_nonneg_nonneg)
  qed
qed

text \<open>Two of three closed pull requests are merged, after 2 and after 4 hours: the stored
  mean is 3.\<close>

theorem mergeTime_after_refresh_witness:
  "Repository_coll example_db 0 = Some example_repo \<and>
   fst (updateRepoMetrics (example_github [4, 6] example_closedPRs) 1000 example_db 0 ''tok'') = Inr () \<and>
   length (filter (\<lambda>pr. merged_at pr \<noteq> None) example_closedPRs) = 2 \<and>
   map_option (\<lambda>r. mergeTime (metrics r))
     (Repository_coll (snd (updateRepoMetrics (example_github [4, 6] example_closedPRs) 1000 example_db 0 ''tok'')) 0)
     = Some 3"
proof -
  let ?gh = "example_github [4, 6] example_closedPRs"
  let ?res = "updateRepoMetrics ?gh 1000 example_db 0 ''tok''"
  let ?merged = "[\<lparr>pr_number = 1, created_at = 0, merged_at = Some 7200000\<rparr>,
                  \<lparr>pr_number = 3, created_at = 3600000, merged_at = Some 18000000\<rparr>]"
  have found: "Repository_coll example_db 0 = Some example_repo"
    by (simp add: example_db_def)
  have fst_ok: "fst ?res = Inr ()"
    by (simp add: updateRepoMetrics_def refresh_def await_def Let_def update_mergeTime_def
      update_commitDrops_def slice_last_def is_long_open_def is_merged_def totalMergeTime_def
      merge_hours_def
      example_db_def example_repo_def example_github_def example_closedPRs_def)
  then have ok: "?res = (Inr (), snd ?res)"
    by (metis prod.collapse)
  have fetched: "getRepoPullRequests ?gh ''tok'' (owner example_repo) (name example_repo) ''closed'' =
      Inr example_closedPRs"
    by (simp add: example_github_def)
  have merged: "?merged = filter (\<lambda>pr. merged_at pr \<noteq> None) example_closedPRs"
    by (simp add: example_closedPRs_def)
  from mergeTime_after_refresh [OF found ok fetched merged] obtain new where
    s: "Repository_coll (snd ?res) 0 = Some new" and
    m: "mergeTime (metrics new) = 3"
    by auto
  from found fst_ok s m merged [symmetric] show ?thesis by simp
qed

text \<open>
  Claim C1 as stated fails: the repository stores 5 hours from an earlier refresh, the
  refresh fetches one closed pull request that was never merged, and afterwards the
  stored count of merged pull requests is 0 while the stored \<open>mergeTime\<close> is still 5.
\<close>

theorem mergeTime_zero_counterexample:
  "fst (updateRepoMetrics (example_github [4, 6] unmerged_closedPRs) 1000 example_db 0 ''tok'') = Inr () \<and>
   filter (\<lambda>pr. merged_at pr \<noteq> None) unmerged_closedPRs = [] \<and>
   map_option (\<lambda>r. pr_merged (pullRequests (metrics r)))
     (Repository_coll (snd (updateRepoMetrics (example_github [4, 6] unmerged_closedPRs) 1000 example_db 0 ''tok'')) 0)
     = Some 0 \<and>
   map_option (\<lambda>r. mergeTime (metrics r))
     (Repository_coll (snd (updateRepoMetrics (example_github [4, 6] unmerged_closedPRs) 1000 example_db 0 ''tok'')) 0)
     = Some 5 \<and>
   map_option (\<lambda>r. mergeTime (metrics r))
     (Repository_coll (snd (updateRepoMetrics (example_github [4, 6] unmerged_closedPRs) 1000 example_db 0 ''tok'')) 0)
     \<noteq> Some 0"
  by (simp add: updateRepoMetrics_def refresh_def await_def Let_def update_mergeTime_def
      update_commitDrops_def slice_last_def is_long_open_def is_merged_def totalMergeTime_def
      merge_hours_def
      example_db_def example_repo_def example_github_def unmerged_closedPRs_def)

text \<open>
  Claim C2. After a refresh that succeeds, the stored weekly series is the fetched one.
  When it has at least two entries, so that it ends with the previous and the current
  week, the stored \<open>commitDrops\<close> flag is true iff the previous week's count is positive
  and the current week's count is 0 or less than 0.3 of the previous one. When it has
  fewer than two entries the flag is what it was before the refresh.
\<close>

theorem commitDrops_after_refresh:
  assumes found: "Repository_coll d repoId = Some old"
    and ok: "updateRepoMetrics gh now d repoId tok = (Inr (), d')"
    and fetched: "getWeeklyCommitActivity gh tok (owner old) (name old) = Inr act"
  shows "\<exists>new. Repository_coll d' repoId = Some new \<and>
           commits_weekly (commits (metrics new)) = map wk_total act \<and>
           (\<forall>ws previousWeek currentWeek.
              map wk_total act = ws @ [previousWeek, currentWeek] \<longrightarrow>
              commitDrops (alerts new) =
                (previousWeek > 0 \<and>
                 (currentWeek = 0 \<or> real_of_int currentWeek / real_of_int previousWeek < 0.3))) \<and>
           (length act < 2 \<longrightarrow> commitDrops (alerts new) = commitDrops (alerts old))"
proof -
  from updateRepoMetrics_Inr [OF found ok] obtain new where
    r: "refresh gh now tok old = Inr new" and s: "Repository_coll d' repoId = Some new"
    by blast
  from refresh_Inr [OF r] fetched have
    w: "commits_weekly (commits (metrics new)) = map wk_total act" and
    c: "commitDrops (alerts new) = commitDrops (update_commitDrops (map wk_total act) (alerts old))"
    by auto
  have long: "commitDrops (update_commitDrops (ws @ [p, q]) a) =
                (p > 0 \<and> (q = 0 \<or> real_of_int q / real_of_int p < 0.3))" for ws p q a
    by (simp add: update_commitDrops_def Let_def nth_append)
  have short: "length w < 2 \<Longrightarrow> update_commitDrops w a = a" for w a
    by (simp add: update_commitDrops_def)
  show ?thesis
    using s w c by (auto simp add: long short)
qed

text \<open>The scenario of the specification: the series \<open>[5,5,5,5,5,0]\<close> raises the flag.\<close>

theorem commitDrops_after_refresh_witness:
  "Repository_coll example_db 0 = Some example_repo \<and>
   fst (updateRepoMetrics (example_github [5, 5, 5, 5, 5, 0] []) 1000 example_db 0 ''tok'') = Inr () \<and>
   map_option (\<lambda>r. commits_weekly (commits (metrics r)))
     (Repository_coll (snd (updateRepoMetrics (example_github [5, 5, 5, 5, 5, 0] []) 1000 example_db 0 ''tok'')) 0)
     = Some [5, 5, 5, 5, 5, 0] \<and>
   map_option (\<lambda>r. commitDrops (alerts r))
     (Repository_coll (snd (updateRepoMetrics (example_github [5, 5, 5, 5, 5, 0] []) 1000 example_db 0 ''tok'')) 0)
     = Some True"
proof -
  let ?gh = "example_github [5, 5, 5, 5, 5, 0] []"
  let ?res = "updateRepoMetrics ?gh 1000 example_db 0 ''tok''"
  have found: "Repository_coll example_db 0 = Some example_repo"
    by (simp add: example_db_def)
  have fst_ok: "fst ?res = Inr ()"
    by (simp add: updateRepoMetrics_def refresh_def await_def Let_def update_mergeTime_def
      update_commitDrops_def slice_last_def is_long_open_def is_merged_def totalMergeTime_def
      merge_hours_def
      example_db_def example_repo_def example_github_def)
  then have ok: "?res = (Inr (), snd ?res)"
    by (metis prod.collapse)
  have fetched: "getWeeklyCommitActivity ?gh ''tok'' (owner example_repo) (name example_repo) =
      Inr (map (\<lambda>t. \<lparr>wk_week = 0, wk_total = t, wk_days = []\<rparr>) [5, 5, 5, 5, 5, 0])"
    by (simp add: example_github_def)
  from commitDrops_after_refresh [OF found ok fetched] obtain new where
    s: "Repository_coll (snd ?res) 0 = Some new" and
    w: "commits_weekly (commits (metrics new)) = [5, 5, 5, 5, 5, 0]" and
    a: "\<forall>ws previousWeek currentWeek.
          [5, 5, 5, 5, 5, 0] = ws @ [previousWeek, currentWeek] \<longrightarrow>
          commitDrops (alerts new) =
            (previousWeek > 0 \<and>
             (currentWeek = 0 \<or> real_of_int currentWeek / real_of_int previousWeek < 0.3))"
    by auto
  from a [rule_format, of "[5, 5, 5, 5]" 5 0] have "commitDrops (alerts new) = True"
    by simp
  with found fst_ok s w show ?thesis by simp
qed

text \<open>
  Claim C5. If any of the GitHub calls of a refresh fails, the refresh returns the
  database it was given, unchanged in every collection and field, and the caller
  receives the error of the first call that failed.
\<close>

theorem refresh_failure_persists_nothing:
  assumes "Repository_coll d repoId = Some repo"
    and "github_errors gh tok repo \<noteq> []"
  shows "updateRepoMetrics gh now d repoId tok = (Inl (hd (github_errors gh tok repo)), d)"
  using assms by (simp add: updateRepoMetrics_def refresh_Inl)

text \<open>The sixth call (closed issues) fails, after the in-memory document has already
  been given new counters, commit and pull-request metrics: nothing of it is stored.\<close>

theorem refresh_failure_persists_nothing_witness:
  "Repository_coll example_db 0 = Some example_repo \<and>
   github_errors failing_github ''tok'' example_repo = [Error ''GitHub API Error: Bad credentials''] \<and>
   updateRepoMetrics failing_github 1000 example_db 0 ''tok'' =
     (Inl (Error ''GitHub API Error: Bad credentials''), example_db)"
proof -
  have found: "Repository_coll example_db 0 = Some example_repo"
    by (simp add: example_db_def)
  have errs: "github_errors failing_github ''tok'' example_repo =
      [Error ''GitHub API Error: Bad credentials'']"
    by (simp add: github_errors_def call_error_def example_repo_def example_github_def
      failing_github_def)
  then have ne: "github_errors failing_github ''tok'' example_repo \<noteq> []" by simp
  from refresh_failure_persists_nothing [OF found ne, of 1000] found errs
  show ?thesis by simp
qed


section \<open>Properties of the repository and account controllers\<close>

text \<open>
  Claim C9. When the authenticated user exists and subscribes to the repository,
  \<open>disconnectRepo\<close> answers 200; if that user was the only subscriber the repository
  record is gone afterwards; otherwise the record stored afterwards is the record stored
  before with that user filtered out of \<open>users\<close>, its metrics in particular unchanged.
  No other repository record changes.
\<close>

theorem disconnectRepo_last_subscriber:
  assumes u: "User_coll d reqUser = Some user"
    and r: "Repository_coll d rid = Some repo"
    and m: "reqUser \<in> set (users repo)"
  shows "fst (disconnectRepo d reqUser rid) = (200, Message ''Repository disconnected successfully'') \<and>
         (set (users repo) = {reqUser} \<longrightarrow> Repository_coll (snd (disconnectRepo d reqUser rid)) rid = None) \<and>
         (set (users repo) \<noteq> {reqUser} \<longrightarrow>
            Repository_coll (snd (disconnectRepo d reqUser rid)) rid =
              Some (repo\<lparr>users := filter (\<lambda>userId. userId \<noteq> reqUser) (users repo)\<rparr>) \<and>
            map_option metrics (Repository_coll (snd (disconnectRepo d reqUser rid)) rid) =
              Some (metrics repo)) \<and>
         (\<forall>other. other \<noteq> rid \<longrightarrow>
            Repository_coll (snd (disconnectRepo d reqUser rid)) other = Repository_coll d other)"
proof -
  have empty_iff: "filter (\<lambda>userId. userId \<noteq> reqUser) (users repo) = [] \<longleftrightarrow> set (users repo) = {reqUser}"
    using m by (auto simp add: filter_empty_conv)
  show ?thesis
    using u r m empty_iff by (simp add: disconnectRepo_def Let_def)
qed

text \<open>Disconnecting user 1 deletes the repository that only user 1 subscribes to, and leaves the
  shared one with user 2 as its only subscriber.\<close>

theorem disconnectRepo_last_subscriber_witness:
  "User_coll example_db 1 = Some example_user \<and>
   Repository_coll example_db 0 = Some example_repo \<and>
   users example_repo = [1] \<and>
   Repository_coll (snd (disconnectRepo example_db 1 0)) 0 = None \<and>
   map_option users (Repository_coll shared_db 0) = Some [1, 2] \<and>
   Repository_coll (snd (disconnectRepo shared_db 1 0)) 0 = Some (example_repo\<lparr>users := [2]\<rparr>)"
proof -
  have u: "User_coll example_db 1 = Some example_user"
    and r: "Repository_coll example_db 0 = Some example_repo"
    and m: "1 \<in> set (users example_repo)"
    and l: "users example_repo = [1]"
    by (simp_all add: example_db_def example_repo_def)
  have u': "User_coll shared_db 1 = Some example_user"
    and r': "Repository_coll shared_db 0 = Some (example_repo\<lparr>users := [1, 2]\<rparr>)"
    and m': "1 \<in> set (users (example_repo\<lparr>users := [1, 2]\<rparr>))"
    by (simp_all add: shared_db_def)
  from disconnectRepo_last_subscriber [OF u r m] l
  have a: "Repository_coll (snd (disconnectRepo example_db 1 0)) 0 = None"
    by simp
  from disconnectRepo_last_subscriber [OF u' r' m']
  have b: "Repository_coll (snd (disconnectRepo shared_db 1 0)) 0 = Some (example_repo\<lparr>users := [2]\<rparr>)"
    by simp
  from u r l a b r' show ?thesis by simp
qed

text \<open>\<open>deleteUserAccount\<close> never changes the repository collection.\<close>

lemma deleteUserAccount_keeps_repositories:
  "Repository_coll (snd (deleteUserAccount d reqUser)) = Repository_coll d"
  by (simp add: deleteUserAccount_def split: option.splits)

text \<open>
  Claim C6 fails on the code. User 1 is the only subscriber of repository 0. After
  \<open>deleteUserAccount\<close> has answered 200 the user record is gone, and repository 0 is
  still stored with user 1 in its subscriber list: the user was not removed from it and
  the repository, now without any existing subscriber, was not deleted.
  \<open>disconnectRepo\<close>, for the same user and repository, deletes the repository.
\<close>

theorem deleteUserAccount_leaves_subscription:
  "fst (deleteUserAccount example_db 1) = (200, Message ''User account deleted successfully'') \<and>
   User_coll (snd (deleteUserAccount example_db 1)) 1 = None \<and>
   map_option users (Repository_coll (snd (deleteUserAccount example_db 1)) 0) = Some [1] \<and>
   map_option users (Repository_coll (snd (disconnectRepo example_db 1 0)) 0) = None"
  using deleteUserAccount_keeps_repositories [of example_db 1]
  by (simp add: deleteUserAccount_def disconnectRepo_def Let_def example_db_def example_repo_def)


section \<open>Properties of the alert controllers\<close>

lemma createAlert_cases:
  "snd (createAlert d reqUser b) = d \<and> fst (fst (createAlert d reqUser b)) \<noteq> 201 \<or>
   (\<exists>rid ty msg th v t.
      repositoryId b = Some rid \<and> body_type b = Some ty \<and> body_message b = Some msg \<and>
      body_threshold b = Some th \<and> body_value b = Some v \<and>
      existingAlert (Alert_coll d) reqUser rid ty = None \<and> type_of_name ty = Some t \<and>
      createAlert d reqUser b =
        ((201, AlertJson \<lparr>alert_user = reqUser, alert_repository = rid, alert_type = t,
                          message = msg, threshold = th, alert_value = v,
                          alert_status = Active, resolvedAt = None\<rparr>),
         d\<lparr>Alert_coll := Alert_coll d @
             [\<lparr>alert_user = reqUser, alert_repository = rid, alert_type = t,
               message = msg, threshold = th, alert_value = v,
               alert_status = Active, resolvedAt = None\<rparr>]\<rparr>))"
proof (cases "repositoryId b")
  case None
  then show ?thesis by (simp add: createAlert_def)
next
  case rid: (Some rid)
  show ?thesis
  proof (cases "body_type b")
    case None
    with rid show ?thesis by (simp add: createAlert_def)
  next
    case ty: (Some ty)
    show ?thesis
    proof (cases "body_message b")
      case None
      with rid ty show ?thesis by (simp add: createAlert_def)
    next
      case msg: (Some msg)
      show ?thesis
      proof (cases "body_threshold b")
        case None
        with rid ty msg show ?thesis by (simp add: createAlert_def)
      next
        case th: (Some th)
        show ?thesis
        proof (cases "body_value b")
          case None
          with rid ty msg th show ?thesis by (simp add: createAlert_def)
        next
          case v: (Some v)
          with rid ty msg th show ?thesis
            by (simp add: createAlert_def Let_def split: option.splits)
        qed
      qed
    qed
  qed
qed

lemma createAlert_alerts_prefix:
  "i < length (Alert_coll d) \<Longrightarrow> Alert_coll (snd (createAlert d reqUser b)) ! i = Alert_coll d ! i"
  using createAlert_cases [of d reqUser b] by (auto simp add: nth_append)

lemma updateAlertStatus_cases:
  "snd (updateAlertStatus d now reqUser i status) = d \<or>
   (\<exists>s. status = Some s \<and> (s = ''active'' \<or> s = ''resolved'' \<or> s = ''dismissed'') \<and>
      i < length (Alert_coll d) \<and> alert_user (Alert_coll d ! i) = reqUser \<and>
      snd (updateAlertStatus d now reqUser i status) =
        d\<lparr>Alert_coll := (Alert_coll d)
            [i := (Alert_coll d ! i)\<lparr>alert_status := status_of_name s,
                   resolvedAt := (if s = ''active'' then resolvedAt (Alert_coll d ! i) else Some now)\<rparr>]\<rparr>)"
proof (cases status)
  case None
  then show ?thesis by (simp add: updateAlertStatus_def)
next
  case (Some s)
  show ?thesis
  proof (cases "s = ''active'' \<or> s = ''resolved'' \<or> s = ''dismissed''")
    case False
    with Some show ?thesis by (simp add: updateAlertStatus_def)
  next
    case True
    then have ne: "s \<noteq> []" by auto
    show ?thesis
    proof (cases "i < length (Alert_coll d) \<and> alert_user (Alert_coll d ! i) = reqUser")
      case False
      with Some True ne show ?thesis
        by (simp add: updateAlertStatus_def findAlertById_def)
    next
      case ok: True
      have "snd (updateAlertStatus d now reqUser i status) =
        d\<lparr>Alert_coll := (Alert_coll d)
            [i := (Alert_coll d ! i)\<lparr>alert_status := status_of_name s,
                   resolvedAt := (if s = ''active'' then resolvedAt (Alert_coll d ! i) else Some now)\<rparr>]\<rparr>"
        using Some True ne ok
        by (cases "s = ''active''") (auto simp add: updateAlertStatus_def findAlertById_def Let_def)
      with Some True ok show ?thesis by blast
    qed
  qed
qed

text \<open>
  Claim C7, as amended. Let an alert record be \<open>resolved\<close> or \<open>dismissed\<close>.
  \<open>createAlert\<close> never changes it: a request that is accepted (201) appends a new record,
  whose status is \<open>active\<close>. \<open>updateAlertStatus\<close> makes the record \<open>active\<close> again exactly
  when the request names this record, asks for the status \<open>active\<close> and comes from the
  record's owner. The other handlers (\<open>disconnectRepo\<close>, \<open>deleteUserAccount\<close>,
  \<open>updateRepoMetrics\<close>) leave the alert collection as it is.
\<close>

theorem alert_reactivation_only_by_update:
  assumes i: "i < length (Alert_coll d)"
    and t: "alert_status (Alert_coll d ! i) = Resolved \<or> alert_status (Alert_coll d ! i) = Dismissed"
  shows "Alert_coll (snd (createAlert d reqUser b)) ! i = Alert_coll d ! i \<and>
         (fst (fst (createAlert d reqUser b)) = 201 \<longrightarrow>
            length (Alert_coll (snd (createAlert d reqUser b))) = Suc (length (Alert_coll d)) \<and>
            alert_status (last (Alert_coll (snd (createAlert d reqUser b)))) = Active) \<and>
         (alert_status (Alert_coll (snd (updateAlertStatus d now reqUser j status)) ! i) = Active \<longrightarrow>
            j = i \<and> status = Some ''active'' \<and> reqUser = alert_user (Alert_coll d ! i)) \<and>
         (j = i \<and> status = Some ''active'' \<and> reqUser = alert_user (Alert_coll d ! i) \<longrightarrow>
            alert_status (Alert_coll (snd (updateAlertStatus d now reqUser j status)) ! i) = Active) \<and>
         Alert_coll (snd (disconnectRepo d reqUser rid)) = Alert_coll d \<and>
         Alert_coll (snd (deleteUserAccount d reqUser)) = Alert_coll d \<and>
         Alert_coll (snd (updateRepoMetrics gh now d rid tok)) = Alert_coll d"
proof -
  have c1: "Alert_coll (snd (createAlert d reqUser b)) ! i = Alert_coll d ! i"
    using i by (rule createAlert_alerts_prefix)
  have c2: "fst (fst (createAlert d reqUser b)) = 201 \<longrightarrow>
            length (Alert_coll (snd (createAlert d reqUser b))) = Suc (length (Alert_coll d)) \<and>
            alert_status (last (Alert_coll (snd (createAlert d reqUser b)))) = Active"
    using createAlert_cases [of d reqUser b] by auto
  have u1: "alert_status (Alert_coll (snd (updateAlertStatus d now reqUser j status)) ! i) = Active \<longrightarrow>
            j = i \<and> status = Some ''active'' \<and> reqUser = alert_user (Alert_coll d ! i)"
  proof (cases "snd (updateAlertStatus d now reqUser j status) = d")
    case True
    with t show ?thesis by auto
  next
    case False
    with updateAlertStatus_cases [of d now reqUser j status] obtain s where
      s: "status = Some s" "s = ''active'' \<or> s = ''resolved'' \<or> s = ''dismissed''"
      and j: "j < length (Alert_coll d)" "alert_user (Alert_coll d ! j) = reqUser"
      and e: "Alert_coll (snd (updateAlertStatus d now reqUser j status)) =
        (Alert_coll d)
            [j := (Alert_coll d ! j)\<lparr>alert_status := status_of_name s,
                   resolvedAt := (if s = ''active'' then resolvedAt (Alert_coll d ! j) else Some now)\<rparr>]"
      by auto
    show ?thesis
    proof (cases "j = i")
      case True
      with s j e i show ?thesis by (auto simp add: status_of_name_def)
    next
      case False
      with e i t show ?thesis by auto
    qed
  qed
  have u2: "j = i \<and> status = Some ''active'' \<and> reqUser = alert_user (Alert_coll d ! i) \<longrightarrow>
            alert_status (Alert_coll (snd (updateAlertStatus d now reqUser j status)) ! i) = Active"
    using i by (simp add: updateAlertStatus_def findAlertById_def Let_def status_of_name_def)
  have o1: "Alert_coll (snd (disconnectRepo d reqUser rid)) = Alert_coll d"
    by (simp add: disconnectRepo_def Let_def split: option.splits)
  have o2: "Alert_coll (snd (deleteUserAccount d reqUser)) = Alert_coll d"
    by (simp add: deleteUserAccount_def split: option.splits)
  have o3: "Alert_coll (snd (updateRepoMetrics gh now d rid tok)) = Alert_coll d"
    by (simp add: updateRepoMetrics_def split: option.splits sum.splits)
  from c1 c2 u1 u2 o1 o2 o3 show ?thesis by blast
qed

text \<open>On the database with one resolved alert: a new request of the same type is accepted
  and appends an active record, the resolved record stays as it is, and a request to
  dismiss it does not make it active.\<close>

theorem alert_reactivation_only_by_update_witness:
  "alert_status (Alert_coll resolved_db ! 0) = Resolved \<and>
   fst (fst (createAlert resolved_db 1 example_body)) = 201 \<and>
   Alert_coll (snd (createAlert resolved_db 1 example_body)) ! 0 = Alert_coll resolved_db ! 0 \<and>
   length (Alert_coll (snd (createAlert resolved_db 1 example_body))) = 2 \<and>
   alert_status (last (Alert_coll (snd (createAlert resolved_db 1 example_body)))) = Active \<and>
   alert_status (Alert_coll (snd (updateAlertStatus resolved_db 3000 1 0 (Some ''dismissed''))) ! 0)
     \<noteq> Active"
proof -
  have i: "0 < length (Alert_coll resolved_db)"
    by (simp add: resolved_db_def)
  have t: "alert_status (Alert_coll resolved_db ! 0) = Resolved \<or>
           alert_status (Alert_coll resolved_db ! 0) = Dismissed"
    by (simp add: resolved_db_def)
  have r: "alert_status (Alert_coll resolved_db ! 0) = Resolved"
    by (simp add: resolved_db_def)
  have c: "fst (fst (createAlert resolved_db 1 example_body)) = 201"
    by (simp add: createAlert_def updateAlertStatus_def existingAlert_def type_of_name_def
      status_of_name_def findAlertById_def Let_def example_body_def example_db_def example_repo_def
      resolved_db_def)
  have l: "length (Alert_coll resolved_db) = 1"
    by (simp add: resolved_db_def)
  have ne: "Some ''dismissed'' \<noteq> Some ''active''" by simp
  from alert_reactivation_only_by_update
    [OF i t, where reqUser = 1 and b = example_body and now = 3000 and j = 0
       and status = "Some ''dismissed''"] c l ne
  have "Alert_coll (snd (createAlert resolved_db 1 example_body)) ! 0 = Alert_coll resolved_db ! 0"
    and "length (Alert_coll (snd (createAlert resolved_db 1 example_body))) = 2"
    and "alert_status (last (Alert_coll (snd (createAlert resolved_db 1 example_body)))) = Active"
    and "alert_status (Alert_coll (snd (updateAlertStatus resolved_db 3000 1 0 (Some ''dismissed''))) ! 0)
     \<noteq> Active"
    by auto
  with r c show ?thesis by blast
qed

text \<open>
  Claim C7 as stated fails: the owner's request \<open>status = active\<close> on the resolved record
  is answered 200 and the same record (no new one is created) is \<open>active\<close> afterwards.
\<close>

theorem alert_reactivation_counterexample:
  "alert_status (Alert_coll resolved_db ! 0) = Resolved \<and>
   fst (fst (updateAlertStatus resolved_db 3000 1 0 (Some ''active''))) = 200 \<and>
   length (Alert_coll (snd (updateAlertStatus resolved_db 3000 1 0 (Some ''active'')))) = 1 \<and>
   alert_status (Alert_coll (snd (updateAlertStatus resolved_db 3000 1 0 (Some ''active''))) ! 0) = Active"
  by (simp add: createAlert_def updateAlertStatus_def existingAlert_def type_of_name_def
      status_of_name_def findAlertById_def Let_def example_body_def example_db_def example_repo_def
      resolved_db_def)

text \<open>
  Claim C8 fails on the code. User 1 has one resolved \<open>commitDrops\<close> alert on repository
  0. A new creation request is accepted, so there is one resolved and one active record;
  a further creation request is rejected with \<open>Alert already exists\<close> and changes
  nothing, as the claim says. Then the owner's request to set the first record back to
  \<open>active\<close> is answered 200, and user 1 has two active \<open>commitDrops\<close> alerts on
  repository 0: \<open>updateAlertStatus\<close> does not make the check for an existing active
  alert that \<open>createAlert\<close> makes.
\<close>

theorem second_active_alert_after_reactivation:
  "map (\<lambda>a. (alert_user a, alert_repository a, alert_type a, alert_status a))
     (Alert_coll resolved_db) = [(1, 0, CommitDrops, Resolved)] \<and>
   fst (fst (createAlert resolved_db 1 example_body)) = 201 \<and>
   map (\<lambda>a. (alert_user a, alert_repository a, alert_type a, alert_status a))
     (Alert_coll (snd (createAlert resolved_db 1 example_body))) =
     [(1, 0, CommitDrops, Resolved), (1, 0, CommitDrops, Active)] \<and>
   one_active_per_key (Alert_coll (snd (createAlert resolved_db 1 example_body))) \<and>
   createAlert (snd (createAlert resolved_db 1 example_body)) 1 example_body =
     ((400, Message ''Alert already exists''), snd (createAlert resolved_db 1 example_body)) \<and>
   fst (fst (updateAlertStatus (snd (createAlert resolved_db 1 example_body)) 3000 1 0
               (Some ''active''))) = 200 \<and>
   map (\<lambda>a. (alert_user a, alert_repository a, alert_type a, alert_status a))
     (Alert_coll (snd (updateAlertStatus (snd (createAlert resolved_db 1 example_body)) 3000 1 0
                         (Some ''active'')))) =
     [(1, 0, CommitDrops, Active), (1, 0, CommitDrops, Active)] \<and>
   \<not> one_active_per_key
         (Alert_coll (snd (updateAlertStatus (snd (createAlert resolved_db 1 example_body)) 3000 1 0
                             (Some ''active''))))"
  by (simp add: createAlert_def updateAlertStatus_def existingAlert_def type_of_name_def
      status_of_name_def findAlertById_def Let_def example_body_def example_db_def example_repo_def
      resolved_db_def active_keys_def one_active_per_key_def)

section \<open>Properties of the weekly report job\<close>

lemma try_catch_None: "fst (try_catch body handler st) = None"
  by (simp add: try_catch_def split: prod.splits option.splits)

lemma for_of_None:
  "(\<And>x s. x \<in> set xs \<Longrightarrow> fst (body x s) = None) \<Longrightarrow> fst (for_of xs body st) = None"
proof (induction xs arbitrary: st)
  case Nil
  then show ?case by simp
next
  case (Cons x xs)
  from Cons.prems [of x st] have "fst (body x st) = None" by simp
  then obtain st' where "body x st = (None, st')" by (cases "body x st") auto
  with Cons show ?case by simp
qed

lemma for_of_preserves:
  "(\<And>y s. Q s \<Longrightarrow> Q (snd (body y s))) \<Longrightarrow> Q st \<Longrightarrow> Q (snd (for_of xs body st))"
proof (induction xs arbitrary: st)
  case Nil
  then show ?case by simp
next
  case (Cons x xs)
  from Cons.prems have q: "Q (snd (body x st))" by blast
  show ?case
  proof (cases "body x st")
    case (Pair a st')
    with q have "Q st'" by simp
    with Pair Cons show ?thesis by (cases a) auto
  qed
qed

lemma for_of_reaches:
  assumes "x \<in> set xs"
    and none: "\<And>y s. y \<in> set xs \<Longrightarrow> fst (body y s) = None"
    and here: "\<And>s. Q (snd (body x s))"
    and keep: "\<And>y s. Q s \<Longrightarrow> Q (snd (body y s))"
  shows "Q (snd (for_of xs body st))"
  using assms(1) none
proof (induction xs arbitrary: st)
  case Nil
  then show ?case by simp
next
  case (Cons y ys)
  from Cons.prems(2) [of y st] obtain st' where st': "body y st = (None, st')"
    by (cases "body y st") auto
  show ?case
  proof (cases "x = y")
    case True
    from here [of st] True st' have "Q st'" by simp
    with keep have "Q (snd (for_of ys body st'))" by (rule for_of_preserves)
    with st' show ?thesis by simp
  next
    case False
    with Cons.prems have "x \<in> set ys" by simp
    with Cons.IH [of st'] Cons.prems(2) have "Q (snd (for_of ys body st'))" by simp
    with st' show ?thesis by simp
  qed
qed

lemma grows_refl: "grows st st"
  by (simp add: grows_def)

lemma grows_trans: "grows a b \<Longrightarrow> grows b c \<Longrightarrow> grows a c"
  by (auto simp add: grows_def)

lemma grows_console: "grows st (console l st)"
  by (auto simp add: grows_def console_def)

lemma grows_report: "grows st (snd (report_for_repository env u r st))"
  by (auto simp add: report_for_repository_def Let_def grows_def console_def list_update_append
      split: option.splits sum.splits)

lemma grows_try_catch:
  "grows st (snd (body st)) \<Longrightarrow> grows st (snd (try_catch body handler st))"
  by (auto simp add: try_catch_def split: prod.splits option.splits
      intro: grows_trans grows_console)

lemma grows_for_of:
  assumes "\<And>y s. grows s (snd (body y s))"
  shows "grows st (snd (for_of xs body st))"
proof (rule for_of_preserves [where Q = "grows st"])
  show "grows st (snd (body y s))" if "grows st s" for y s
    using that assms [of s y] by (rule grows_trans)
  show "grows st st" by (rule grows_refl)
qed

lemma grows_user: "grows st (snd (reports_for_user env u st))"
proof (cases "repositories_scan env (fst u)")
  case (Inl e)
  then show ?thesis by (simp add: reports_for_user_def grows_refl)
next
  case (Inr found)
  have "grows (console l st) (snd (for_of xs
          (\<lambda>repo. try_catch (report_for_repository env u repo)
                                  (Error_repository (fullName (snd repo)))) (console l st)))" for l xs
    by (intro grows_for_of grows_try_catch grows_report)
  with Inr show ?thesis
    by (auto simp add: reports_for_user_def Let_def intro: grows_trans [OF grows_console])
qed

lemma grows_user_caught:
  "grows st (snd (try_catch (reports_for_user env u) handler st))"
  by (intro grows_try_catch grows_user)

lemma grows_repo_caught:
  "grows st (snd (try_catch (report_for_repository env u r) handler st))"
  by (intro grows_try_catch grows_report)

lemma outcome_grows: "outcome env u r s \<Longrightarrow> grows s s' \<Longrightarrow> outcome env u r s'"
  unfolding outcome_def grows_def by blast

lemma outcome_repository:
  "outcome env u r (snd (try_catch (report_for_repository env u r)
                          (Error_repository (fullName (snd r))) st))"
proof (cases "save_error env (fst u) (fst r) False")
  case (Some e)
  then show ?thesis
    by (auto simp add: outcome_def delivery_succeeds_def try_catch_def report_for_repository_def
        console_def Let_def)
next
  case s1: None
  show ?thesis
  proof (cases "generateReportEmail env (snd u) (snd r)
              (doc_fields (Report_new (weekly_literal env (fst u) r) (clock env)))")
    case (Inl e)
    with s1 show ?thesis
      by (auto simp add: outcome_def delivery_succeeds_def try_catch_def report_for_repository_def
          console_def Let_def Report_new_def weekly_literal_def)
  next
    case (Inr c)
    show ?thesis
    proof (cases "sendEmail env (email (snd u)) (''Weekly Report for '' @ fullName (snd r)) c")
      case (Some e)
      with s1 Inr show ?thesis
        by (auto simp add: outcome_def delivery_succeeds_def try_catch_def report_for_repository_def
            console_def Let_def Report_new_def weekly_literal_def)
    next
      case s2: None
      show ?thesis
      proof (cases "save_error env (fst u) (fst r) True")
        case (Some e)
        with s1 Inr s2 show ?thesis
          by (auto simp add: outcome_def delivery_succeeds_def try_catch_def report_for_repository_def
              console_def Let_def Report_new_def weekly_literal_def)
      next
        case None
        with s1 Inr s2 show ?thesis
          by (auto simp add: outcome_def delivery_succeeds_def try_catch_def report_for_repository_def
              console_def Let_def Report_new_def weekly_literal_def)
      qed
    qed
  qed
qed

lemma outcome_user:
  assumes scan: "repositories_scan env (fst u) = Inr found"
    and r: "r \<in> set found" "fst u \<in> set (users (snd r))"
  shows "outcome env u r (snd (try_catch (reports_for_user env u) handler st))"
proof -
  let ?repos = "filter (\<lambda>r. fst u \<in> set (users (snd r))) found"
  let ?body = "\<lambda>repo. try_catch (report_for_repository env u repo)
                                  (Error_repository (fullName (snd repo)))"
  have mem: "r \<in> set ?repos" using r by simp
  have loop: "outcome env u r (snd (for_of ?repos ?body s))" for s
  proof (rule for_of_reaches [where Q = "outcome env u r", OF mem])
    show "fst (?body y s) = None" for y s by (rule try_catch_None)
    show "outcome env u r (snd (?body r s))" for s by (rule outcome_repository)
    show "outcome env u r (snd (?body y s))" if "outcome env u r s" for y s
      using that grows_repo_caught by (rule outcome_grows)
  qed
  have fst_loop: "fst (for_of ?repos ?body s) = None" for s
    by (rule for_of_None) (rule try_catch_None)
  have "reports_for_user env u st =
          for_of ?repos ?body (console (Log_generating (username (snd u)) (length ?repos)) st)"
    using scan by (simp add: reports_for_user_def Let_def)
  moreover obtain s' where "for_of ?repos ?body
        (console (Log_generating (username (snd u)) (length ?repos)) st) = (None, s')"
    using fst_loop [of "console (Log_generating (username (snd u)) (length ?repos)) st"]
    by (cases "for_of ?repos ?body
        (console (Log_generating (username (snd u)) (length ?repos)) st)") auto
  ultimately show ?thesis
    using loop [of "console (Log_generating (username (snd u)) (length ?repos)) st"]
    by (simp add: try_catch_def)
qed

lemma error_user:
  assumes "repositories_scan env (fst u) = Inl e"
  shows "Error_user (username (snd u)) e \<in>
           set (cs_log (snd (try_catch (reports_for_user env u) (Error_user (username (snd u))) st)))"
  using assms by (simp add: try_catch_def reports_for_user_def console_def)

lemma job_reaches:
  assumes scan: "users_scan env = Inr found_users"
    and u: "u \<in> set found_users" "weekly_enabled u"
    and here: "\<And>s. Q (snd (try_catch (reports_for_user env u) (Error_user (username (snd u))) s))"
    and keep: "\<And>s s'. Q s \<Longrightarrow> grows s s' \<Longrightarrow> Q s'"
  shows "Q (snd (scheduleWeeklyReports env st))"
proof -
  let ?users = "filter (\<lambda>u. enabled (emailReports (snd u)) \<and>
                                      frequency (emailReports (snd u)) = Weekly) found_users"
  let ?body = "\<lambda>user. try_catch (reports_for_user env user) (Error_user (username (snd user)))"
  let ?s1 = "console (Log_found (length ?users)) (console Log_running st)"
  have mem: "u \<in> set ?users" using u by (simp add: weekly_enabled_def)
  have loop: "Q (snd (for_of ?users ?body ?s1))"
  proof (rule for_of_reaches [where Q = Q, OF mem])
    show "fst (?body y s) = None" for y s by (rule try_catch_None)
    show "Q (snd (?body u s))" for s by (rule here)
    show "Q (snd (?body y s))" if "Q s" for y s
      using that grows_user_caught by (rule keep)
  qed
  have "fst (for_of ?users ?body ?s1) = None"
    by (rule for_of_None) (rule try_catch_None)
  then obtain s2 where s2: "for_of ?users ?body ?s1 = (None, s2)"
    by (cases "for_of ?users ?body ?s1") auto
  with loop have "Q s2" by simp
  then have "Q (console Log_completed s2)"
    using grows_console by (rule keep)
  moreover have "scheduleWeeklyReports env st = (None, console Log_completed s2)"
    using scan s2 by (simp add: scheduleWeeklyReports_def all_weekly_reports_def try_catch_def Let_def)
  ultimately show ?thesis by simp
qed

text \<open>
  Claim C3. The scheduled run never ends by a thrown error, whatever fails inside it.
  Let the user scan succeed and \<open>u\<close> be any user it finds with weekly reports enabled. If
  the repositories of \<open>u\<close> cannot be loaded, that error is logged for \<open>u\<close>. Otherwise, for
  every repository \<open>r\<close> that \<open>u\<close> subscribes to: if the calls made for \<open>(u, r)\<close> itself
  succeed then \<open>Report sent\<close> is logged for it, if one of them is rejected then an error
  is logged for the repository, and if its first save succeeds then a report of \<open>(u, r)\<close>
  is stored. None of this depends on what happens to any other user or repository of
  the run: no hypothesis is made about them.
\<close>

theorem weekly_reports_isolation:
  "fst (scheduleWeeklyReports env st) = None \<and>
   (users_scan env = Inr found_users \<and> u \<in> set found_users \<and> weekly_enabled u \<longrightarrow>
      (\<forall>e. repositories_scan env (fst u) = Inl e \<longrightarrow>
           Error_user (username (snd u)) e \<in> set (cs_log (snd (scheduleWeeklyReports env st)))) \<and>
      (\<forall>found r. repositories_scan env (fst u) = Inr found \<and> r \<in> set found \<and>
                  fst u \<in> set (users (snd r)) \<longrightarrow>
           (delivery_succeeds env u r \<longrightarrow>
              Log_sent (fullName (snd r)) (email (snd u))
                \<in> set (cs_log (snd (scheduleWeeklyReports env st)))) \<and>
           (\<not> delivery_succeeds env u r \<longrightarrow>
              (\<exists>e. Error_repository (fullName (snd r)) e
                \<in> set (cs_log (snd (scheduleWeeklyReports env st))))) \<and>
           (save_error env (fst u) (fst r) False = None \<longrightarrow>
              (\<exists>rep \<in> set (cs_reports (snd (scheduleWeeklyReports env st))).
                  report_user rep = fst u \<and> report_repository rep = fst r))))"
proof -
  have never: "fst (scheduleWeeklyReports env st) = None"
    unfolding scheduleWeeklyReports_def by (rule try_catch_None)
  have failed: "Error_user (username (snd u)) e \<in> set (cs_log (snd (scheduleWeeklyReports env st)))"
    if "users_scan env = Inr found_users" "u \<in> set found_users" "weekly_enabled u"
      "repositories_scan env (fst u) = Inl e" for e
  proof (rule job_reaches [where Q = "\<lambda>s. Error_user (username (snd u)) e \<in> set (cs_log s)",
        OF that(1-3)])
    show "Error_user (username (snd u)) e \<in>
        set (cs_log (snd (try_catch (reports_for_user env u) (Error_user (username (snd u))) s)))" for s
      using that(4) by (rule error_user)
    show "Error_user (username (snd u)) e \<in> set (cs_log s')"
      if "Error_user (username (snd u)) e \<in> set (cs_log s)" "grows s s'" for s s'
      using that by (auto simp add: grows_def)
  qed
  have item: "outcome env u r (snd (scheduleWeeklyReports env st))"
    if "users_scan env = Inr found_users" "u \<in> set found_users" "weekly_enabled u"
      "repositories_scan env (fst u) = Inr found" "r \<in> set found" "fst u \<in> set (users (snd r))"
    for found r
  proof (rule job_reaches [where Q = "outcome env u r", OF that(1-3)])
    show "outcome env u r
        (snd (try_catch (reports_for_user env u) (Error_user (username (snd u))) s))" for s
      using that(4-6) by (rule outcome_user)
    show "outcome env u r s'" if "outcome env u r s" "grows s s'" for s s'
      using that by (rule outcome_grows)
  qed
  show ?thesis
    using never failed item unfolding outcome_def by blast
qed

text \<open>A run over three users: the email for one of the two repositories of user 2 cannot
  be rendered and the repositories of user 3 cannot be loaded. The other repository of
  user 2 and the one of user 1 are reported, and the run completes.\<close>

theorem weekly_reports_isolation_witness:
  "users_scan example_env = Inr [(1, example_user), (2, user_hexa), (3, user_nona)] \<and>
   weekly_enabled (2, user_hexa) \<and> weekly_enabled (3, user_nona) \<and>
   \<not> delivery_succeeds example_env (2, user_hexa) (1, repo_lib) \<and>
   delivery_succeeds example_env (2, user_hexa) (2, repo_app) \<and>
   repositories_scan example_env 3 = Inl (Error ''connection lost'') \<and>
   fst (scheduleWeeklyReports example_env empty_state) = None \<and>
   Log_sent ''hexa/app'' ''hexa@example.org''
     \<in> set (cs_log (snd (scheduleWeeklyReports example_env empty_state))) \<and>
   Error_user ''nona'' (Error ''connection lost'')
     \<in> set (cs_log (snd (scheduleWeeklyReports example_env empty_state))) \<and>
   cs_log (snd (scheduleWeeklyReports example_env empty_state)) =
     [Log_running, Log_found 3,
      Log_generating ''octo'' 1, Log_sent ''octo/demo'' ''octo@example.org'',
      Log_generating ''hexa'' 2, Error_repository ''hexa/lib'' (TypeError ''cannot render''),
      Log_sent ''hexa/app'' ''hexa@example.org'',
      Error_user ''nona'' (Error ''connection lost''), Log_completed]"
proof -
  let ?final = "snd (scheduleWeeklyReports example_env empty_state)"
  have scan: "users_scan example_env = Inr [(1, example_user), (2, user_hexa), (3, user_nona)]"
    by (simp add: example_env_def)
  have en: "weekly_enabled (2, user_hexa)" "weekly_enabled (3, user_nona)"
    by (simp_all add: weekly_enabled_def user_hexa_def user_nona_def example_user_def)
  have lib: "\<not> delivery_succeeds example_env (2, user_hexa) (1, repo_lib)"
    by (simp add: delivery_succeeds_def example_env_def repo_lib_def)
  have app: "delivery_succeeds example_env (2, user_hexa) (2, repo_app)"
    by (simp add: delivery_succeeds_def example_env_def repo_app_def)
  have rs2: "repositories_scan example_env (fst (2::nat, user_hexa)) =
      Inr [(0, example_repo), (1, repo_lib), (2, repo_app)]"
    by (simp add: example_env_def)
  have rs3: "repositories_scan example_env 3 = Inl (Error ''connection lost'')"
    by (simp add: example_env_def)
  have sub: "fst (2::nat, user_hexa) \<in> set (users (snd (2::nat, repo_app)))"
    by (simp add: repo_app_def)
  from weekly_reports_isolation
    [where env = example_env and st = empty_state and u = "(2, user_hexa)"
       and found_users = "[(1, example_user), (2, user_hexa), (3, user_nona)]"]
    scan en(1) rs2 sub app
  have never: "fst (scheduleWeeklyReports example_env empty_state) = None"
    and sent: "Log_sent (fullName (snd (2::nat, repo_app))) (email (snd (2::nat, user_hexa)))
       \<in> set (cs_log ?final)"
    by auto
  from weekly_reports_isolation
    [where env = example_env and st = empty_state and u = "(3, user_nona)"
       and found_users = "[(1, example_user), (2, user_hexa), (3, user_nona)]"]
    scan en(2) rs3
  have failed: "Error_user (username (snd (3::nat, user_nona))) (Error ''connection lost'')
       \<in> set (cs_log ?final)"
    by auto
  have log: "cs_log ?final =
     [Log_running, Log_found 3,
      Log_generating ''octo'' 1, Log_sent ''octo/demo'' ''octo@example.org'',
      Log_generating ''hexa'' 2, Error_repository ''hexa/lib'' (TypeError ''cannot render''),
      Log_sent ''hexa/app'' ''hexa@example.org'',
      Error_user ''nona'' (Error ''connection lost''), Log_completed]"
    by (simp add: scheduleWeeklyReports_def all_weekly_reports_def reports_for_user_def
      report_for_repository_def try_catch_def console_def Report_new_def weekly_literal_def
      default_data_def Let_def example_env_def empty_state_def user_hexa_def
      user_nona_def repo_lib_def repo_app_def example_user_def example_repo_def)
  from sent have sent': "Log_sent ''hexa/app'' ''hexa@example.org'' \<in> set (cs_log ?final)"
    by (simp add: repo_app_def user_hexa_def)
  from failed have failed': "Error_user ''nona'' (Error ''connection lost'') \<in> set (cs_log ?final)"
    by (simp add: user_nona_def)
  from scan en lib app rs3 never sent' failed' log show ?thesis by blast
qed








section \<open>Properties of the CSV export\<close>

text \<open>
  On an object that does carry a \<open>reportData\<close> property with a metrics snapshot of the
  repository model, the exporter returns a CSV. Its rows show the names it reads:
  \<open>commits.total\<close>, \<open>pullRequests.open\<close> and \<open>issues.open\<close> are found, \<open>pullRequests.total\<close>
  and \<open>issues.total\<close> are not.
\<close>

lemma generateReportCsv_on_snapshot_object:
  "generateReportCsv example_builtins snapshot_object (repository_js example_repo) =
     Inr (concat (map (\<lambda>line. line @ nl)
       [''Metric,Value,Details'',
        ''Repository,octo/demo,No description'',
        ''Report Period,1970-01-01 to 1970-01-01,weekly report'',
        ''Generated On,1970-01-01,'',
        [],
        ''METRICS SUMMARY,'',
        ''Total Commits,12,'',
        [],
        ''Pull Requests,undefined,'',
        ''Open Pull Requests,3,'',
        ''Closed Pull Requests,1,'',
        ''Merged Pull Requests,2,'',
        ''Average Merge Time,3.00 hours,'',
        [],
        ''Issues,undefined,'',
        ''Open Issues,4,'',
        ''Closed Issues,5,'']))"
  by (simp add: generateReportCsv_def commits_section_def pullRequests_section_def
      issues_section_def optional_rows_def forEach_rows_def formatDate_def or_else_def nl_def
      await_def Let_def repository_js_def comma_join_def example_builtins_def
      snapshot_object_def example_repo_def)

text \<open>
  Claim C10 fails on the code. For every report record of \<open>reportSchema\<close>, handed to the
  exporter with its repository as \<open>exportReport\<close> does, \<open>generateReportCsv\<close> ends by a
  \<open>TypeError\<close> and produces no CSV: the record has its payload under \<open>data\<close>, the exporter
  reads \<open>report.reportData\<close>, which is \<open>undefined\<close>, and then \<open>reportData.commits\<close>. The
  header rows before that read are built and lost. On the object of the lemma above,
  which is no report record but has a \<open>reportData\<close> property, the same function does
  return a CSV.
\<close>

theorem generateReportCsv_throws_on_report_records:
  "generateReportCsv js (report_js rep (repository_js repo)) (repository_js repo) =
     Inl (TypeError ''Cannot read properties of undefined (reading commits)'') \<and>
   \<not> isl (generateReportCsv example_builtins snapshot_object (repository_js example_repo))"
  using generateReportCsv_on_snapshot_object
  by (simp add: generateReportCsv_def commits_section_def pullRequests_section_def
      issues_section_def optional_rows_def forEach_rows_def formatDate_def or_else_def nl_def
      await_def Let_def report_js_def report_data_js_def repository_js_def)

end
